theory Spec2Isabelle
  imports Complex_Main "HOL-Library.Sublist"
begin

text \<open>
  AgriCare: a crop photo is uploaded, sent to an external vision model, the model's
  answer is normalized into four fields, and a PDF report is archived. The theory embeds
  server.js (the Express server), netlify/functions/save-report.js, the analyze
  function of the Netlify deployment and the image scaling of public/script.js, and
  proves the properties of the specification about them.
\<close>

section \<open>JavaScript strings\<close>

text \<open>
  A JavaScript string is a sequence of UTF-16 code units; the model keeps each code unit
  as a natural number, so that regular-expression classes are ranges of numbers.
  \<open>js ''abc''\<close> writes a string literal of the source.
\<close>

type_synonym jsstring = "nat list"

abbreviation js :: "string \<Rightarrow> jsstring" where
  "js s \<equiv> map of_char s"

text \<open>\<^verbatim>\<open>s.startsWith(p)\<close>\<close>

definition startsWith :: "jsstring \<Rightarrow> jsstring \<Rightarrow> bool" where
  "startsWith s p = prefix p s"

text \<open>
  \<^verbatim>\<open>s.trim()\<close>: removes the White_Space and LineTerminator code units of ECMAScript
  from both ends.
\<close>

definition is_js_space :: "nat \<Rightarrow> bool" where
  "is_js_space c =
     (c = 9 \<or> c = 10 \<or> c = 11 \<or> c = 12 \<or> c = 13 \<or> c = 32 \<or> c = 160 \<or> c = 5760
      \<or> (8192 \<le> c \<and> c \<le> 8202) \<or> c = 8232 \<or> c = 8233 \<or> c = 8239 \<or> c = 8287
      \<or> c = 12288 \<or> c = 65279)"

definition trim :: "jsstring \<Rightarrow> jsstring" where
  "trim s = rev (dropWhile is_js_space (rev (dropWhile is_js_space s)))"

text \<open>
  \<^verbatim>\<open>s.replace(/[^a-zA-Z0-9_.-]/g, "_")\<close>: every code unit outside the class becomes
  an underscore (the expression has no \<open>u\<close> flag, so it works on code units).
\<close>

definition safe_char :: "nat \<Rightarrow> bool" where
  "safe_char c =
     ((97 \<le> c \<and> c \<le> 122) \<or> (65 \<le> c \<and> c \<le> 90) \<or> (48 \<le> c \<and> c \<le> 57)
      \<or> c = 95 \<or> c = 46 \<or> c = 45)"

definition sanitize :: "jsstring \<Rightarrow> jsstring" where
  "sanitize s = map (\<lambda>c. if safe_char c then c else 95) s"

text \<open>Template interpolation of an integer, as in \<^verbatim>\<open>`analysis_${Date.now()}`\<close>.\<close>

definition digit_char :: "nat \<Rightarrow> nat" where
  "digit_char d = 48 + d"

function show_nat :: "nat \<Rightarrow> jsstring" where
  "show_nat n = (if n < 10 then [digit_char n] else show_nat (n div 10) @ [digit_char (n mod 10)])"
  by pat_completeness auto
termination
  by (relation "measure (\<lambda>n. n)") auto

declare show_nat.simps [simp del]

definition show_int :: "int \<Rightarrow> jsstring" where
  "show_int i = (if i < 0 then 45 # show_nat (nat (- i)) else show_nat (nat i))"

section \<open>The fence pattern\<close>

text \<open>
  \<^verbatim>\<open>jsonText.match(/```(?:json)?\n([\s\S]*?)\n```/i)\<close>, server.js line 92.
  \<open>lazy_until_close\<close> is the lazy group followed by the closing newline and three
  backticks: the shortest text before the first such closing. \<open>match_here\<close> is the
  pattern anchored at the start of its argument, trying the optional \<open>json\<close> first and
  the empty alternative after it, as the backtracking matcher does. \<open>fence_match\<close> is
  the leftmost match; its value is capture group 1.
\<close>

definition fence_ticks :: jsstring where
  "fence_ticks = [96, 96, 96]"

definition fence_close :: jsstring where
  "fence_close = [10, 96, 96, 96]"

fun lazy_until_close :: "jsstring \<Rightarrow> jsstring option" where
  "lazy_until_close [] = None"
| "lazy_until_close (c # cs) =
     (if prefix fence_close (c # cs) then Some []
      else map_option ((#) c) (lazy_until_close cs))"

text \<open>The letters of \<open>json\<close> under the \<open>i\<close> flag: either case of each ASCII letter.\<close>

definition ci_json :: "jsstring \<Rightarrow> bool" where
  "ci_json s =
     (case s of
        [a, b, c, d] \<Rightarrow> (a = 106 \<or> a = 74) \<and> (b = 115 \<or> b = 83) \<and> (c = 111 \<or> c = 79)
                       \<and> (d = 110 \<or> d = 78)
      | _ \<Rightarrow> False)"

definition match_here :: "jsstring \<Rightarrow> jsstring option" where
  "match_here s =
     (if prefix fence_ticks s then
        (let r = drop 3 s;
             tagged = (if ci_json (take 4 r) \<and> prefix [10] (drop 4 r)
                       then lazy_until_close (drop 5 r) else None)
         in case tagged of
              Some g \<Rightarrow> Some g
            | None \<Rightarrow> if prefix [10] r then lazy_until_close (drop 1 r) else None)
      else None)"

fun fence_match :: "jsstring \<Rightarrow> jsstring option" where
  "fence_match [] = None"
| "fence_match (c # cs) =
     (case match_here (c # cs) of Some g \<Rightarrow> Some g | None \<Rightarrow> fence_match cs)"

text \<open>
  Lines 90 to 95 of server.js: the text handed to \<^verbatim>\<open>JSON.parse\<close>.
\<close>

definition extract_json_text :: "jsstring \<Rightarrow> jsstring" where
  "extract_json_text text =
     (let jsonText = trim text
      in case fence_match jsonText of Some g \<Rightarrow> trim g | None \<Rightarrow> jsonText)"

section \<open>JSON values and \<^verbatim>\<open>JSON.parse\<close>\<close>

text \<open>
  The values \<^verbatim>\<open>JSON.parse\<close> produces. \<open>JNum q\<close> is the number whose literal denotes
  \<open>q\<close> (the runtime rounds it to a double, to infinity beyond the largest one; the code
  below only ever asks whether a number is zero, and no property proved here looks at
  a number that is passed on or archived). \<open>JObj\<close> lists the members in source order; a later member with the
  same key overrides an earlier one, see \<open>own_prop\<close>.
\<close>

datatype json =
    JNull
  | JBool bool
  | JNum rat
  | JStr jsstring
  | JArr "json list"
  | JObj "(jsstring \<times> json) list"

subsection \<open>Tokens\<close>

datatype token =
    TLBrace | TRBrace | TLBrack | TRBrack | TColon | TComma
  | TString jsstring | TNumber rat | TTrue | TFalse | TNull

datatype litname = LTrue | LFalse | LNull

fun lit_chars :: "litname \<Rightarrow> jsstring" where
  "lit_chars LTrue = [116, 114, 117, 101]"
| "lit_chars LFalse = [102, 97, 108, 115, 101]"
| "lit_chars LNull = [110, 117, 108, 108]"

fun lit_token :: "litname \<Rightarrow> token" where
  "lit_token LTrue = TTrue"
| "lit_token LFalse = TFalse"
| "lit_token LNull = TNull"

datatype numphase =
    AfterMinus | LeadZero | IntDigits | AfterDot | FracDigits | AfterE | AfterESign | ExpDigits

record numacc =
  neg :: bool
  mant :: nat
  fracn :: nat
  eneg :: bool
  expo :: nat

definition num_value :: "numacc \<Rightarrow> rat" where
  "num_value a =
     (let m = (if neg a then - of_nat (mant a) else of_nat (mant a));
          e = (if eneg a then - int (expo a) else int (expo a)) - int (fracn a)
      in if 0 \<le> e then m * 10 ^ nat e else m / 10 ^ nat (- e))"

datatype lexstate =
    Between
  | InStr jsstring
  | InEsc jsstring
  | InHex jsstring nat nat
  | InNum numphase numacc
  | InLit litname nat

definition is_json_ws :: "nat \<Rightarrow> bool" where
  "is_json_ws c = (c = 32 \<or> c = 9 \<or> c = 10 \<or> c = 13)"

definition digit_val :: "nat \<Rightarrow> nat option" where
  "digit_val c = (if 48 \<le> c \<and> c \<le> 57 then Some (c - 48) else None)"

definition hex_val :: "nat \<Rightarrow> nat option" where
  "hex_val c =
     (if 48 \<le> c \<and> c \<le> 57 then Some (c - 48)
      else if 97 \<le> c \<and> c \<le> 102 then Some (c - 87)
      else if 65 \<le> c \<and> c \<le> 70 then Some (c - 55)
      else None)"

definition unescape :: "nat \<Rightarrow> nat option" where
  "unescape c =
     (if c = 34 then Some 34 else if c = 92 then Some 92 else if c = 47 then Some 47
      else if c = 98 then Some 8 else if c = 102 then Some 12 else if c = 110 then Some 10
      else if c = 114 then Some 13 else if c = 116 then Some 9 else None)"

definition num0 :: numacc where
  "num0 = \<lparr>neg = False, mant = 0, fracn = 0, eneg = False, expo = 0\<rparr>"

text \<open>One code unit read between two tokens.\<close>

definition step_between :: "nat \<Rightarrow> (lexstate \<times> token list) option" where
  "step_between c =
     (if is_json_ws c then Some (Between, [])
      else if c = 123 then Some (Between, [TLBrace])
      else if c = 125 then Some (Between, [TRBrace])
      else if c = 91 then Some (Between, [TLBrack])
      else if c = 93 then Some (Between, [TRBrack])
      else if c = 58 then Some (Between, [TColon])
      else if c = 44 then Some (Between, [TComma])
      else if c = 34 then Some (InStr [], [])
      else if c = 45 then Some (InNum AfterMinus (num0\<lparr>neg := True\<rparr>), [])
      else if c = 48 then Some (InNum LeadZero num0, [])
      else if 49 \<le> c \<and> c \<le> 57 then Some (InNum IntDigits (num0\<lparr>mant := c - 48\<rparr>), [])
      else if c = 116 then Some (InLit LTrue 1, [])
      else if c = 102 then Some (InLit LFalse 1, [])
      else if c = 110 then Some (InLit LNull 1, [])
      else None)"

text \<open>A number ends at the first code unit that cannot continue it.\<close>

definition end_number :: "numacc \<Rightarrow> nat \<Rightarrow> (lexstate \<times> token list) option" where
  "end_number a c =
     (case step_between c of
        None \<Rightarrow> None
      | Some (st, out) \<Rightarrow> Some (st, TNumber (num_value a) # out))"

definition is_e :: "nat \<Rightarrow> bool" where
  "is_e c = (c = 101 \<or> c = 69)"

fun step_number :: "numphase \<Rightarrow> numacc \<Rightarrow> nat \<Rightarrow> (lexstate \<times> token list) option" where
  "step_number AfterMinus a c =
     (if c = 48 then Some (InNum LeadZero a, [])
      else case digit_val c of
             Some d \<Rightarrow> Some (InNum IntDigits (a\<lparr>mant := d\<rparr>), [])
           | None \<Rightarrow> None)"
| "step_number LeadZero a c =
     (if c = 46 then Some (InNum AfterDot a, [])
      else if is_e c then Some (InNum AfterE a, [])
      else end_number a c)"
| "step_number IntDigits a c =
     (case digit_val c of
        Some d \<Rightarrow> Some (InNum IntDigits (a\<lparr>mant := mant a * 10 + d\<rparr>), [])
      | None \<Rightarrow>
          if c = 46 then Some (InNum AfterDot a, [])
          else if is_e c then Some (InNum AfterE a, [])
          else end_number a c)"
| "step_number AfterDot a c =
     (case digit_val c of
        Some d \<Rightarrow> Some (InNum FracDigits (a\<lparr>mant := mant a * 10 + d, fracn := fracn a + 1\<rparr>), [])
      | None \<Rightarrow> None)"
| "step_number FracDigits a c =
     (case digit_val c of
        Some d \<Rightarrow> Some (InNum FracDigits (a\<lparr>mant := mant a * 10 + d, fracn := fracn a + 1\<rparr>), [])
      | None \<Rightarrow> if is_e c then Some (InNum AfterE a, []) else end_number a c)"
| "step_number AfterE a c =
     (if c = 43 then Some (InNum AfterESign a, [])
      else if c = 45 then Some (InNum AfterESign (a\<lparr>eneg := True\<rparr>), [])
      else case digit_val c of
             Some d \<Rightarrow> Some (InNum ExpDigits (a\<lparr>expo := d\<rparr>), [])
           | None \<Rightarrow> None)"
| "step_number AfterESign a c =
     (case digit_val c of
        Some d \<Rightarrow> Some (InNum ExpDigits (a\<lparr>expo := d\<rparr>), [])
      | None \<Rightarrow> None)"
| "step_number ExpDigits a c =
     (case digit_val c of
        Some d \<Rightarrow> Some (InNum ExpDigits (a\<lparr>expo := expo a * 10 + d\<rparr>), [])
      | None \<Rightarrow> end_number a c)"

fun lex_step :: "lexstate \<Rightarrow> nat \<Rightarrow> (lexstate \<times> token list) option" where
  "lex_step Between c = step_between c"
| "lex_step (InStr acc) c =
     (if c = 34 then Some (Between, [TString (rev acc)])
      else if c = 92 then Some (InEsc acc, [])
      else if c < 32 then None
      else Some (InStr (c # acc), []))"
| "lex_step (InEsc acc) c =
     (if c = 117 then Some (InHex acc 0 0, [])
      else case unescape c of Some d \<Rightarrow> Some (InStr (d # acc), []) | None \<Rightarrow> None)"
| "lex_step (InHex acc k v) c =
     (case hex_val c of
        None \<Rightarrow> None
      | Some h \<Rightarrow>
          if k = 3 then Some (InStr ((v * 16 + h) # acc), [])
          else Some (InHex acc (Suc k) (v * 16 + h), []))"
| "lex_step (InNum ph a) c = step_number ph a c"
| "lex_step (InLit l k) c =
     (if k < length (lit_chars l) \<and> c = lit_chars l ! k then
        (if Suc k = length (lit_chars l) then Some (Between, [lit_token l])
         else Some (InLit l (Suc k), []))
      else None)"

text \<open>At the end of the text only a finished token may be open.\<close>

fun lex_finish :: "lexstate \<Rightarrow> token list option" where
  "lex_finish Between = Some []"
| "lex_finish (InNum ph a) =
     (if ph = LeadZero \<or> ph = IntDigits \<or> ph = FracDigits \<or> ph = ExpDigits
      then Some [TNumber (num_value a)] else None)"
| "lex_finish _ = None"

fun lex_from :: "lexstate \<Rightarrow> jsstring \<Rightarrow> token list option" where
  "lex_from st [] = lex_finish st"
| "lex_from st (c # cs) =
     (case lex_step st c of
        None \<Rightarrow> None
      | Some (st', out) \<Rightarrow> map_option ((@) out) (lex_from st' cs))"

subsection \<open>Grammar\<close>

text \<open>
  The grammar of JSON over the tokens, as a pushdown automaton: a frame for each open
  array or object, and the state says which token may come.
\<close>

datatype frame =
    FArr "json list"
  | FObj "(jsstring \<times> json) list" jsstring

datatype pstate =
    PValue "frame list"
  | PArrStart "frame list"
  | PObjStart "frame list"
  | PObjKey "(jsstring \<times> json) list" "frame list"
  | PObjColon "(jsstring \<times> json) list" jsstring "frame list"
  | PArrNext "json list" "frame list"
  | PObjNext "(jsstring \<times> json) list" "frame list"
  | PDone json

fun complete :: "json \<Rightarrow> frame list \<Rightarrow> pstate" where
  "complete v [] = PDone v"
| "complete v (FArr xs # stk) = PArrNext (v # xs) stk"
| "complete v (FObj ms k # stk) = PObjNext ((k, v) # ms) stk"

fun start_value :: "frame list \<Rightarrow> token \<Rightarrow> pstate option" where
  "start_value stk (TString s) = Some (complete (JStr s) stk)"
| "start_value stk (TNumber q) = Some (complete (JNum q) stk)"
| "start_value stk TTrue = Some (complete (JBool True) stk)"
| "start_value stk TFalse = Some (complete (JBool False) stk)"
| "start_value stk TNull = Some (complete JNull stk)"
| "start_value stk TLBrack = Some (PArrStart stk)"
| "start_value stk TLBrace = Some (PObjStart stk)"
| "start_value stk _ = None"

fun pstep :: "pstate \<Rightarrow> token \<Rightarrow> pstate option" where
  "pstep (PValue stk) t = start_value stk t"
| "pstep (PArrStart stk) t =
     (if t = TRBrack then Some (complete (JArr []) stk) else start_value (FArr [] # stk) t)"
| "pstep (PObjStart stk) t =
     (case t of
        TRBrace \<Rightarrow> Some (complete (JObj []) stk)
      | TString k \<Rightarrow> Some (PObjColon [] k stk)
      | _ \<Rightarrow> None)"
| "pstep (PObjKey ms stk) t =
     (case t of TString k \<Rightarrow> Some (PObjColon ms k stk) | _ \<Rightarrow> None)"
| "pstep (PObjColon ms k stk) t =
     (if t = TColon then Some (PValue (FObj ms k # stk)) else None)"
| "pstep (PArrNext xs stk) t =
     (case t of
        TComma \<Rightarrow> Some (PValue (FArr xs # stk))
      | TRBrack \<Rightarrow> Some (complete (JArr (rev xs)) stk)
      | _ \<Rightarrow> None)"
| "pstep (PObjNext ms stk) t =
     (case t of
        TComma \<Rightarrow> Some (PObjKey ms stk)
      | TRBrace \<Rightarrow> Some (complete (JObj (rev ms)) stk)
      | _ \<Rightarrow> None)"
| "pstep (PDone v) t = None"

fun parse_tokens :: "pstate \<Rightarrow> token list \<Rightarrow> json option" where
  "parse_tokens st [] = (case st of PDone v \<Rightarrow> Some v | _ \<Rightarrow> None)"
| "parse_tokens st (t # ts) =
     (case pstep st t of None \<Rightarrow> None | Some st' \<Rightarrow> parse_tokens st' ts)"

text \<open>\<^verbatim>\<open>JSON.parse(text)\<close>; \<open>None\<close> is the SyntaxError it throws.\<close>

definition JSON_parse :: "jsstring \<Rightarrow> json option" where
  "JSON_parse text =
     (case lex_from Between text of
        None \<Rightarrow> None
      | Some toks \<Rightarrow> parse_tokens (PValue []) toks)"

section \<open>The Analysis Client: normalization\<close>

text \<open>
  Values thrown in the program, each with its message; \<open>message\<close> is
  \<^verbatim>\<open>err.message\<close>. The messages of the errors the runtime itself throws are the
  engine's wording; of those only the message of \<open>get_prop\<close> can reach a response.
\<close>

datatype jserror =
    Error jsstring
  | TypeError jsstring
  | SyntaxError jsstring
  | MulterError jsstring

fun message :: "jserror \<Rightarrow> jsstring" where
  "message (Error m) = m"
| "message (TypeError m) = m"
| "message (SyntaxError m) = m"
| "message (MulterError m) = m"

text \<open>
  \<^verbatim>\<open>v.k\<close> for the keys this program reads (none of them is defined on a prototype):
  \<open>None\<close> is \<^verbatim>\<open>undefined\<close>. Of the members of an object with the same key the last
  one counts. Reading a property of \<^verbatim>\<open>null\<close> throws a TypeError (the message is V8's).
\<close>

definition own_prop :: "json \<Rightarrow> jsstring \<Rightarrow> json option" where
  "own_prop v k = (case v of JObj ms \<Rightarrow> map_of (rev ms) k | _ \<Rightarrow> None)"

definition get_prop :: "json \<Rightarrow> jsstring \<Rightarrow> jserror + json option" where
  "get_prop v k =
     (case v of
        JNull \<Rightarrow>
          Inl (TypeError (js ''Cannot read properties of null (reading '' @ [39] @ k @ [39, 41]))
      | _ \<Rightarrow> Inr (own_prop v k))"

text \<open>\<^verbatim>\<open>typeof x === "string" ? x : d\<close> and \<^verbatim>\<open>Array.isArray(x) ? x : []\<close>.\<close>

fun string_or :: "json option \<Rightarrow> jsstring \<Rightarrow> jsstring" where
  "string_or (Some (JStr s)) d = s"
| "string_or _ d = d"

fun array_or_empty :: "json option \<Rightarrow> json list" where
  "array_or_empty (Some (JArr xs)) = xs"
| "array_or_empty _ = []"

record analysis =
  disease :: jsstring
  medicines :: "json list"
  description :: jsstring
  causes :: "json list"

text \<open>Lines 104 to 112 of server.js.\<close>

definition normalize :: "json \<Rightarrow> jserror + analysis" where
  "normalize parsed =
     (case get_prop parsed (js ''disease'') of
        Inl e \<Rightarrow> Inl e
      | Inr d \<Rightarrow>
     (case get_prop parsed (js ''medicines'') of
        Inl e \<Rightarrow> Inl e
      | Inr m \<Rightarrow>
     (case get_prop parsed (js ''description'') of
        Inl e \<Rightarrow> Inl e
      | Inr ds \<Rightarrow>
     (case get_prop parsed (js ''causes'') of
        Inl e \<Rightarrow> Inl e
      | Inr c \<Rightarrow>
          Inr \<lparr>disease = string_or d (js ''Unknown''),
               medicines = array_or_empty m,
               description = string_or ds [],
               causes = array_or_empty c\<rparr>))))"

text \<open>
  Lines 90 to 112 of server.js: from the text of the model's response to the
  normalized result.
\<close>

definition analyze_text :: "jsstring \<Rightarrow> jserror + analysis" where
  "analyze_text text =
     (case JSON_parse (extract_json_text text) of
        None \<Rightarrow> Inl (Error (js ''Failed to parse AI response as JSON''))
      | Some parsed \<Rightarrow> normalize parsed)"

text \<open>Whether every element of an array is a string.\<close>

fun is_JStr :: "json \<Rightarrow> bool" where
  "is_JStr (JStr s) = True"
| "is_JStr _ = False"

definition all_strings :: "json list \<Rightarrow> bool" where
  "all_strings xs = list_all is_JStr xs"

text \<open>
  The text \<open>t\<close> inside a fenced block with the language tag \<open>tag\<close> (empty for no tag),
  as the fence-stripping property wraps it, in this layout: the opening backticks, the
  tag, one line feed, the text, one line feed, the closing backticks.
\<close>

definition fenced :: "jsstring \<Rightarrow> jsstring \<Rightarrow> jsstring" where
  "fenced tag t = fence_ticks @ tag @ [10] @ t @ fence_close"

text \<open>No newline is directly followed by a backtick.\<close>

fun no_nl_tick :: "jsstring \<Rightarrow> bool" where
  "no_nl_tick (a # b # cs) = (\<not> (a = 10 \<and> b = 96) \<and> no_nl_tick (b # cs))"
| "no_nl_tick _ = True"

section \<open>The process, its storage and its surroundings\<close>

text \<open>
  What a write stores: the bytes of an uploaded file, the buffer
  \<^verbatim>\<open>Buffer.from(s, "base64")\<close> (kept as the text it decodes), or the text
  \<^verbatim>\<open>JSON.stringify(v)\<close> (kept as the value it serializes).
\<close>

datatype content =
    Bytes "nat list"
  | Base64Decoded jsstring
  | JsonText json

text \<open>A line on the console: the arguments of \<^verbatim>\<open>console.error\<close> or \<^verbatim>\<open>console.warn\<close>.\<close>

datatype logarg = Text jsstring | Thrown jserror

datatype logline =
    ConsoleError "logarg list"
  | ConsoleWarn "logarg list"

text \<open>
  The state a request can change: the archive (the disk of the Express server, the blob
  store on Netlify) as a map from path or key to content, the console, and the number of
  calls made to the external model.
\<close>

record world =
  files :: "jsstring \<rightharpoonup> content"
  console :: "logline list"
  model_calls :: nat

text \<open>
  What the surroundings decide for one request: the clock, the error a write to a given
  path throws (if any), whether \<^verbatim>\<open>GEMINI_API_KEY\<close> is set, what the model answers
  (a thrown error or the text of its response) for an image and MIME type, and the
  library functions \<^verbatim>\<open>path.extname\<close>, \<^verbatim>\<open>path.parse(p).name\<close> and
  \<^verbatim>\<open>Buffer.from(s, "base64").toString("utf8")\<close>, which the program calls and this
  development leaves open, as it does the message of the SyntaxError that
  \<^verbatim>\<open>JSON.parse\<close> throws on a text and the message of the TypeError thrown where
  \<^verbatim>\<open>(name || ...).replace\<close> is called on a value without that method, given the
  name of the variable.
\<close>

record env =
  now :: int
  iso_now :: jsstring
  write_error :: "jsstring \<Rightarrow> jserror option"
  api_key_set :: bool
  model_reply :: "content \<Rightarrow> jsstring \<Rightarrow> jserror + jsstring"
  path_extname :: "jsstring \<Rightarrow> jsstring"
  path_parse_name :: "jsstring \<Rightarrow> jsstring"
  base64_utf8 :: "jsstring \<Rightarrow> jsstring"
  syntax_error_message :: "jsstring \<Rightarrow> jsstring"
  no_replace_message :: "jsstring \<Rightarrow> jsstring"

text \<open>\<^verbatim>\<open>fs.writeFileSync(path, data)\<close> and \<^verbatim>\<open>await createBlob({name, data})\<close>.\<close>

definition writeFileSync :: "env \<Rightarrow> jsstring \<Rightarrow> content \<Rightarrow> world \<Rightarrow> jserror + world" where
  "writeFileSync e p c w =
     (case write_error e p of
        Some err \<Rightarrow> Inl err
      | None \<Rightarrow> Inr (w\<lparr>files := (files w)(p \<mapsto> c)\<rparr>))"

definition createBlob :: "env \<Rightarrow> jsstring \<Rightarrow> content \<Rightarrow> world \<Rightarrow> jserror + world" where
  "createBlob e name c w =
     (case write_error e name of
        Some err \<Rightarrow> Inl err
      | None \<Rightarrow> Inr (w\<lparr>files := (files w)(name \<mapsto> c)\<rparr>))"

text \<open>
  \<^verbatim>\<open>path.join(dir, name)\<close> for a directory and a file name without separators;
  paths are relative to the directory of server.js.
\<close>

definition path_join :: "jsstring \<Rightarrow> jsstring \<Rightarrow> jsstring" where
  "path_join dir name = dir @ [47] @ name"

definition uploadsDir :: jsstring where
  "uploadsDir = js ''uploads''"

definition reportsDir :: jsstring where
  "reportsDir = js ''reports''"

definition metaDir :: jsstring where
  "metaDir = path_join reportsDir (js ''meta'')"

text \<open>
  Truthiness of a value read from a JSON document (\<open>None\<close> is \<^verbatim>\<open>undefined\<close>). A
  number is falsy when its double is zero, that is when the literal's value rounds to
  zero: at most half the least positive double \<open>2 ^ - 1074\<close>.
\<close>

fun truthy :: "json option \<Rightarrow> bool" where
  "truthy None = False"
| "truthy (Some JNull) = False"
| "truthy (Some (JBool b)) = b"
| "truthy (Some (JNum q)) = (1 / 2 ^ 1075 < \<bar>q\<bar>)"
| "truthy (Some (JStr s)) = (s \<noteq> [])"
| "truthy (Some (JArr xs)) = True"
| "truthy (Some (JObj ms)) = True"

datatype body = JsonBody json | TextBody jsstring

text \<open>
  A response with its status, or an error handed to Express by \<^verbatim>\<open>next(err)\<close>
  before the route's handler runs.
\<close>

datatype response = Response nat body | NextError jserror

definition error_body :: "jsstring \<Rightarrow> body" where
  "error_body m = JsonBody (JObj [(js ''error'', JStr m)])"

section \<open>The Upload Receiver of server.js\<close>

record upload =
  originalname :: jsstring
  mimetype :: jsstring
  bytes :: "nat list"

record stored = upload +
  path :: jsstring
  filename :: jsstring

definition allowedMimeTypes :: "jsstring list" where
  "allowedMimeTypes = [js ''image/jpeg'', js ''image/jpg'', js ''image/png'']"

text \<open>Lines 42 to 45: \<open>Inr True\<close> is \<^verbatim>\<open>cb(null, true)\<close>, \<open>Inl\<close> is \<^verbatim>\<open>cb(err)\<close>.\<close>

definition fileFilter :: "upload \<Rightarrow> jserror + bool" where
  "fileFilter file =
     (if mimetype file \<in> set allowedMimeTypes then Inr True
      else Inl (Error (js ''Only JPG, JPEG, PNG are allowed'')))"

text \<open>Line 49: \<^verbatim>\<open>limits: { fileSize: 10 * 1024 * 1024 }\<close>.\<close>

definition fileSize_limit :: nat where
  "fileSize_limit = 10 * 1024 * 1024"

text \<open>Lines 35 to 40: the name under which the file is stored.\<close>

definition storage_filename :: "env \<Rightarrow> upload \<Rightarrow> jsstring" where
  "storage_filename e file =
     (let time = now e;
          safeOriginal = sanitize (originalname file);
          x = path_extname e safeOriginal;
          ext = (if x = [] then js ''.jpg'' else x)
      in js ''crop_'' @ show_int time @ ext)"

text \<open>
  \<^verbatim>\<open>upload.single("image")\<close> with the configuration of lines 46 to 50, following
  multer's documented behaviour: the filter is asked first, and its error ends the
  request; an accepted file goes to the disk storage under the generated name; a file
  longer than \<open>limits.fileSize\<close> ends the request with the error
  \<^verbatim>\<open>LIMIT_FILE_SIZE\<close> and what was written of it is removed. The result is
  \<^verbatim>\<open>req.file\<close>, \<open>None\<close> when the request carries no file in the field. In either
  case of an error the handler of the route does not run. A request is given by the
  file it carries in the field \<^verbatim>\<open>image\<close>; files under other field names, which
  multer refuses, are not represented.
\<close>

definition upload_single :: "env \<Rightarrow> upload option \<Rightarrow> world \<Rightarrow> (jserror + stored option) \<times> world" where
  "upload_single e part w =
     (case part of
        None \<Rightarrow> (Inr None, w)
      | Some file \<Rightarrow>
          (case fileFilter file of
             Inl err \<Rightarrow> (Inl err, w)
           | Inr accepted \<Rightarrow>
               if \<not> accepted then (Inr None, w)
               else if fileSize_limit < length (bytes file) then
                 (Inl (MulterError (js ''File too large'')), w)
               else
                 (let name = storage_filename e file;
                      p = path_join uploadsDir name
                  in case writeFileSync e p (Bytes (bytes file)) w of
                       Inl err \<Rightarrow> (Inl err, w)
                     | Inr w1 \<Rightarrow>
                         (Inr (Some \<lparr>originalname = originalname file,
                                      mimetype = mimetype file,
                                      bytes = bytes file,
                                      path = p, filename = name\<rparr>), w1))))"

section \<open>The Analysis Client and the analyze route of server.js\<close>

text \<open>
  Lines 66 to 113. \<^verbatim>\<open>fs.readFileSync\<close> throws when the file is not there; the call
  of the model is counted; the rest is \<open>analyze_text\<close>.
\<close>

definition analyzeWithGemini ::
    "env \<Rightarrow> jsstring \<Rightarrow> jsstring \<Rightarrow> world \<Rightarrow> (jserror + analysis) \<times> world" where
  "analyzeWithGemini e imagePath mimeType w =
     (if \<not> api_key_set e then
        (Inl (Error (js ''Gemini API key not configured. Set GEMINI_API_KEY in .env'')), w)
      else
        (case files w imagePath of
           None \<Rightarrow>
             (Inl (Error (js ''ENOENT: no such file or directory, open '' @ [39] @ imagePath @ [39])), w)
         | Some imageBuffer \<Rightarrow>
             (let w1 = w\<lparr>model_calls := model_calls w + 1\<rparr>
              in case model_reply e imageBuffer mimeType of
                   Inl err \<Rightarrow> (Inl err, w1)
                 | Inr text \<Rightarrow> (analyze_text text, w1))))"

definition analysis_members :: "analysis \<Rightarrow> (jsstring \<times> json) list" where
  "analysis_members a =
     [(js ''disease'', JStr (disease a)),
      (js ''medicines'', JArr (medicines a)),
      (js ''description'', JStr (description a)),
      (js ''causes'', JArr (causes a))]"

text \<open>The success response of lines 135 to 140.\<close>

definition analyze_ok :: "jsstring \<Rightarrow> analysis \<Rightarrow> response" where
  "analyze_ok name a =
     Response 200 (JsonBody (JObj
       [(js ''success'', JBool True),
        (js ''imageFilename'', JStr name),
        (js ''imageUrl'', JStr (js ''/uploads/'' @ name)),
        (js ''analysis'', JObj (analysis_members a))]))"

text \<open>The catch block of lines 141 to 144.\<close>

definition analyze_failed :: "jserror \<Rightarrow> world \<Rightarrow> response \<times> world" where
  "analyze_failed err w =
     (Response 500 (error_body (if message err = [] then js ''Analysis failed'' else message err)),
      w\<lparr>console := console w @ [ConsoleError [Thrown err]]\<rparr>)"

text \<open>The handler of lines 116 to 145, given \<^verbatim>\<open>req.file\<close>.\<close>

definition api_analyze :: "env \<Rightarrow> stored option \<Rightarrow> world \<Rightarrow> response \<times> world" where
  "api_analyze e file w =
     (case file of
        None \<Rightarrow> (Response 400 (error_body (js ''No image uploaded'')), w)
      | Some f \<Rightarrow>
          (case analyzeWithGemini e (path f) (mimetype f) w of
             (Inl err, w1) \<Rightarrow> analyze_failed err w1
           | (Inr a, w1) \<Rightarrow>
               (let meta = JObj ([(js ''timestamp'', JStr (iso_now e)),
                                  (js ''imageFilename'', JStr (filename f))] @ analysis_members a);
                    metaFile = path_join metaDir (path_parse_name e (filename f) @ js ''.json'')
                in case writeFileSync e metaFile (JsonText meta) w1 of
                     Inl err \<Rightarrow> analyze_failed err w1
                   | Inr w2 \<Rightarrow> (analyze_ok (filename f) a, w2))))"

text \<open>The route: the upload middleware, then the handler.\<close>

definition post_api_analyze :: "env \<Rightarrow> upload option \<Rightarrow> world \<Rightarrow> response \<times> world" where
  "post_api_analyze e part w =
     (case upload_single e part w of
        (Inl err, w1) \<Rightarrow> (NextError err, w1)
      | (Inr file, w1) \<Rightarrow> api_analyze e file w1)"

section \<open>Saving a report\<close>

definition pdf_prefix :: jsstring where
  "pdf_prefix = js ''data:application/pdf;base64,''"

record fields =
  pdfDataUrl :: "json option"
  baseName :: "json option"
  analysis_field :: "json option"
  imageFilename :: "json option"

text \<open>
  \<^verbatim>\<open>const { pdfDataUrl, baseName, analysis, imageFilename } = v\<close>: destructuring
  \<^verbatim>\<open>null\<close> throws.
\<close>

definition read_fields :: "json \<Rightarrow> jserror + fields" where
  "read_fields v =
     (case v of
        JNull \<Rightarrow> Inl (TypeError (js ''Cannot destructure property of null''))
      | _ \<Rightarrow>
          Inr \<lparr>pdfDataUrl = own_prop v (js ''pdfDataUrl''),
               baseName = own_prop v (js ''baseName''),
               analysis_field = own_prop v (js ''analysis''),
               imageFilename = own_prop v (js ''imageFilename'')\<rparr>)"

text \<open>
  The guard \<^verbatim>\<open>!pdfDataUrl || !pdfDataUrl.startsWith("data:application/pdf;base64,")\<close>:
  \<open>Inr None\<close> when the guard holds, \<open>Inr (Some s)\<close> when it lets the string \<open>s\<close>
  through. A truthy value that is not a string has no method \<^verbatim>\<open>startsWith\<close>, and
  the call throws.
\<close>

definition pdf_guard :: "json option \<Rightarrow> jserror + jsstring option" where
  "pdf_guard p =
     (if \<not> truthy p then Inr None
      else case p of
             Some (JStr s) \<Rightarrow> if startsWith s pdf_prefix then Inr (Some s) else Inr None
           | _ \<Rightarrow> Inl (TypeError (js ''pdfDataUrl.startsWith is not a function'')))"

text \<open>\<^verbatim>\<open>s.replace(p, "")\<close> with a string pattern: the first occurrence goes.\<close>

fun remove_first :: "jsstring \<Rightarrow> jsstring \<Rightarrow> jsstring" where
  "remove_first p [] = []"
| "remove_first p (c # cs) =
     (if prefix p (c # cs) then drop (length p) (c # cs) else c # remove_first p cs)"

text \<open>
  \<^verbatim>\<open>(baseName || `analysis_${Date.now()}`).replace(/[^a-zA-Z0-9_.-]/g, "_")\<close>: a truthy
  base name that is not a string has no method \<^verbatim>\<open>replace\<close>.
\<close>

definition safe_base :: "env \<Rightarrow> json option \<Rightarrow> jserror + jsstring" where
  "safe_base e b =
     (if truthy b then
        (case b of
           Some (JStr s) \<Rightarrow> Inr (sanitize s)
         | _ \<Rightarrow> Inl (TypeError (no_replace_message e (js ''baseName''))))
      else Inr (sanitize (js ''analysis_'' @ show_int (now e))))"

text \<open>\<^verbatim>\<open>JSON.stringify({ analysis, imageFilename })\<close>; an undefined member is left out.\<close>

definition report_meta :: "fields \<Rightarrow> content" where
  "report_meta f =
     JsonText (JObj
       ((case analysis_field f of Some a \<Rightarrow> [(js ''analysis'', a)] | None \<Rightarrow> [])
        @ (case imageFilename f of Some n \<Rightarrow> [(js ''imageFilename'', n)] | None \<Rightarrow> [])))"

definition invalid_pdf :: response where
  "invalid_pdf = Response 400 (error_body (js ''Invalid or missing PDF data''))"

definition save_failed :: response where
  "save_failed = Response 500 (error_body (js ''Failed to save report''))"

definition save_ok :: "jsstring \<Rightarrow> response" where
  "save_ok url =
     Response 200 (JsonBody (JObj [(js ''success'', JBool True), (js ''reportUrl'', JStr url)]))"

subsection \<open>The route of server.js\<close>

text \<open>
  The try block of lines 149 to 173, given \<^verbatim>\<open>req.body\<close>: the response it sends or
  the error it throws, with the world at that point. \<open>body_or_empty\<close> is
  \<^verbatim>\<open>req.body || {}\<close>.
\<close>

definition body_or_empty :: "json option \<Rightarrow> json" where
  "body_or_empty reqbody =
     (case reqbody of
        None \<Rightarrow> JObj []
      | Some v \<Rightarrow> if truthy (Some v) then v else JObj [])"

definition save_report_try :: "env \<Rightarrow> json option \<Rightarrow> world \<Rightarrow> (jserror + response) \<times> world" where
  "save_report_try e reqbody w =
     (let b = body_or_empty reqbody
      in case read_fields b of
           Inl err \<Rightarrow> (Inl err, w)
         | Inr f \<Rightarrow>
      (case pdf_guard (pdfDataUrl f) of
           Inl err \<Rightarrow> (Inl err, w)
         | Inr None \<Rightarrow> (Inr invalid_pdf, w)
         | Inr (Some url) \<Rightarrow>
      (let base64 = remove_first pdf_prefix url;
           buffer = Base64Decoded base64
       in case safe_base e (baseName f) of
            Inl err \<Rightarrow> (Inl err, w)
          | Inr safeBase \<Rightarrow>
      (let pdfPath = path_join reportsDir (safeBase @ js ''.pdf'')
       in case writeFileSync e pdfPath buffer w of
            Inl err \<Rightarrow> (Inl err, w)
          | Inr w1 \<Rightarrow>
      (case (if truthy (analysis_field f)
             then writeFileSync e (path_join metaDir (safeBase @ js ''.json'')) (report_meta f) w1
             else Inr w1) of
            Inl err \<Rightarrow> (Inl err, w1)
          | Inr w2 \<Rightarrow> (Inr (save_ok (js ''/reports/'' @ safeBase @ js ''.pdf'')), w2))))))"

text \<open>Lines 148 to 178: the catch block logs the error and answers 500.\<close>

definition api_save_report :: "env \<Rightarrow> json option \<Rightarrow> world \<Rightarrow> response \<times> world" where
  "api_save_report e reqbody w =
     (case save_report_try e reqbody w of
        (Inl err, w1) \<Rightarrow> (save_failed, w1\<lparr>console := console w1 @ [ConsoleError [Thrown err]]\<rparr>)
      | (Inr r, w1) \<Rightarrow> (r, w1))"

subsection \<open>The function of netlify/functions/save-report.js\<close>

record event =
  httpMethod :: jsstring
  isBase64Encoded :: bool
  event_body :: "jsstring option"

text \<open>
  Lines 10 to 14: the payload. \<^verbatim>\<open>Buffer.from(undefined, "base64")\<close> throws, and so
  does \<^verbatim>\<open>JSON.parse\<close> on a text that is not JSON.
\<close>

definition read_payload :: "env \<Rightarrow> event \<Rightarrow> jserror + json" where
  "read_payload e ev =
     (case (if isBase64Encoded ev then
              (case event_body ev of
                 None \<Rightarrow> Inl (TypeError (js ''The first argument must be of type string''))
               | Some b \<Rightarrow> Inr (Some (base64_utf8 e b)))
            else Inr (event_body ev)) of
        Inl err \<Rightarrow> Inl err
      | Inr bodyRaw \<Rightarrow>
          (let bodyText = (case bodyRaw of None \<Rightarrow> js ''{}'' | Some t \<Rightarrow> if t = [] then js ''{}'' else t)
           in case JSON_parse bodyText of
                None \<Rightarrow> Inl (SyntaxError (syntax_error_message e bodyText))
              | Some payload \<Rightarrow> Inr payload))"

text \<open>\<^verbatim>\<open>console.warn("Blob save failed:", e?.message || e)\<close>\<close>

definition blob_warning :: "jserror \<Rightarrow> logline" where
  "blob_warning err =
     ConsoleWarn [Text (js ''Blob save failed:''),
                  if message err = [] then Thrown err else Text (message err)]"

text \<open>Lines 33 to 50: the block whose failure is only logged.\<close>

definition save_blobs :: "env \<Rightarrow> jsstring \<Rightarrow> jsstring \<Rightarrow> content \<Rightarrow> fields \<Rightarrow> world \<Rightarrow> world" where
  "save_blobs e pdfPath safeBase buffer f w =
     (case createBlob e pdfPath buffer w of
        Inl err \<Rightarrow> w\<lparr>console := console w @ [blob_warning err]\<rparr>
      | Inr w1 \<Rightarrow>
          if truthy (analysis_field f) then
            (case createBlob e (js ''meta/'' @ safeBase @ js ''.json'') (report_meta f) w1 of
               Inl err \<Rightarrow> w1\<lparr>console := console w1 @ [blob_warning err]\<rparr>
             | Inr w2 \<Rightarrow> w2)
          else w1)"

text \<open>
  The outer try block of lines 6 to 59: the response it returns or the error it throws.
  Nothing is written before the inner block, so a thrown error leaves the world as it
  was.
\<close>

definition handler_try :: "env \<Rightarrow> event \<Rightarrow> world \<Rightarrow> (jserror + response) \<times> world" where
  "handler_try e ev w =
     (if httpMethod ev \<noteq> js ''POST'' then
        (Inr (Response 405 (TextBody (js ''Method Not Allowed''))), w)
      else
        (case read_payload e ev of
           Inl err \<Rightarrow> (Inl err, w)
         | Inr payload \<Rightarrow>
        (case read_fields payload of
           Inl err \<Rightarrow> (Inl err, w)
         | Inr f \<Rightarrow>
        (case pdf_guard (pdfDataUrl f) of
           Inl err \<Rightarrow> (Inl err, w)
         | Inr None \<Rightarrow> (Inr invalid_pdf, w)
         | Inr (Some url) \<Rightarrow>
        (let base64 = remove_first pdf_prefix url;
             buffer = Base64Decoded base64
         in case safe_base e (baseName f) of
              Inl err \<Rightarrow> (Inl err, w)
            | Inr safeBase \<Rightarrow>
                (let pdfPath = js ''reports/'' @ safeBase @ js ''.pdf'';
                     w1 = save_blobs e pdfPath safeBase buffer f w
                 in (Inr (save_ok (js ''/.netlify/blobs/'' @ pdfPath)), w1)))))))"

text \<open>Lines 5 to 66: the outer catch block answers 500 and logs nothing.\<close>

definition handler :: "env \<Rightarrow> event \<Rightarrow> world \<Rightarrow> response \<times> world" where
  "handler e ev w =
     (case handler_try e ev w of
        (Inl err, w1) \<Rightarrow> (save_failed, w1)
      | (Inr r, w1) \<Rightarrow> (r, w1))"

section \<open>The analyze function of Netlify\<close>

text \<open>
  The function \<^verbatim>\<open>netlify/functions/analyze.js\<close>, whose text is the second document of
  src/README.md: the sibling of the analyze route of server.js.
\<close>

text \<open>
  \<^verbatim>\<open>imageDataUrl.replace(/^data:[^;]+;base64,/, "")\<close>: the greedy class stops at the
  first semicolon, where \<^verbatim>\<open>;base64,\<close> must follow.
\<close>

definition strip_data_url :: "jsstring \<Rightarrow> jsstring" where
  "strip_data_url s =
     (if prefix (js ''data:'') s then
        (let r = drop 5 s;
             m = takeWhile (\<lambda>c. c \<noteq> 59) r;
             t = dropWhile (\<lambda>c. c \<noteq> 59) r
         in if m \<noteq> [] \<and> prefix (js '';base64,'') t then drop 8 t else s)
      else s)"

text \<open>
  \<^verbatim>\<open>safeName.replace(/\.[^.]+$/, "")\<close>: the last dot and what follows it go, when
  something follows it.
\<close>

definition strip_extension :: "jsstring \<Rightarrow> jsstring" where
  "strip_extension s =
     (let after = takeWhile (\<lambda>c. c \<noteq> 46) (rev s)
      in if after \<noteq> [] \<and> length after < length s
         then take (length s - length after - 1) s else s)"

record image_fields =
  imageDataUrl :: "json option"
  mimeType :: "json option"
  originalName :: "json option"

text \<open>\<^verbatim>\<open>const { imageDataUrl, mimeType, originalName } = payload || {}\<close>\<close>

definition read_image_fields :: "json \<Rightarrow> image_fields" where
  "read_image_fields payload =
     (let v = (if truthy (Some payload) then payload else JObj [])
      in \<lparr>imageDataUrl = own_prop v (js ''imageDataUrl''),
          mimeType = own_prop v (js ''mimeType''),
          originalName = own_prop v (js ''originalName'')\<rparr>)"

text \<open>From the text of the model's response to the normalized result.\<close>

definition netlify_analyze_text :: "jsstring \<Rightarrow> jserror + analysis" where
  "netlify_analyze_text reply =
     (let text = trim reply;
          jsonText = trim (case fence_match text of Some g \<Rightarrow> g | None \<Rightarrow> text)
      in case JSON_parse jsonText of
           None \<Rightarrow> Inl (Error (js ''Failed to parse AI response as JSON''))
         | Some parsed \<Rightarrow> normalize parsed)"

text \<open>
  \<^verbatim>\<open>(originalName || `crop_${timestamp}.png`).replace(/[^a-zA-Z0-9_.-]/g, "_")\<close>
\<close>

definition safe_name :: "env \<Rightarrow> json option \<Rightarrow> jserror + jsstring" where
  "safe_name e n =
     (if truthy n then
        (case n of
           Some (JStr s) \<Rightarrow> Inr (sanitize s)
         | _ \<Rightarrow> Inl (TypeError (no_replace_message e (js ''originalName''))))
      else Inr (sanitize (js ''crop_'' @ show_int (now e) @ js ''.png'')))"

text \<open>The inner try block: the image and the metadata record, both best-effort.\<close>

definition analyze_blobs ::
    "env \<Rightarrow> jsstring \<Rightarrow> jsstring \<Rightarrow> analysis \<Rightarrow> world \<Rightarrow> world" where
  "analyze_blobs e safeName base64 a w =
     (case createBlob e (js ''uploads/'' @ safeName) (Base64Decoded base64) w of
        Inl err \<Rightarrow> w\<lparr>console := console w @ [blob_warning err]\<rparr>
      | Inr w1 \<Rightarrow>
          (case createBlob e (js ''meta/'' @ strip_extension safeName @ js ''.json'')
                  (JsonText (JObj ([(js ''timestamp'', JStr (iso_now e)),
                                    (js ''imageFilename'', JStr safeName)] @ analysis_members a))) w1 of
             Inl err \<Rightarrow> w1\<lparr>console := console w1 @ [blob_warning err]\<rparr>
           | Inr w2 \<Rightarrow> w2))"

definition netlify_analyze_ok :: "jsstring \<Rightarrow> analysis \<Rightarrow> response" where
  "netlify_analyze_ok name a =
     Response 200 (JsonBody (JObj
       [(js ''success'', JBool True),
        (js ''imageFilename'', JStr name),
        (js ''analysis'', JObj (analysis_members a))]))"

text \<open>The outer try block: the response it returns or the error it throws.\<close>

definition analyze_try :: "env \<Rightarrow> event \<Rightarrow> world \<Rightarrow> (jserror + response) \<times> world" where
  "analyze_try e ev w =
     (if httpMethod ev \<noteq> js ''POST'' then
        (Inr (Response 405 (TextBody (js ''Method Not Allowed''))), w)
      else
        (let b = (case event_body ev of None \<Rightarrow> [] | Some t \<Rightarrow> t);
             raw = (if isBase64Encoded ev then base64_utf8 e b else b)
         in case JSON_parse raw of
              None \<Rightarrow>
                (Inr (Response 400 (JsonBody (JObj
                   [(js ''error'', JStr (js ''Expected JSON body'')),
                    (js ''details'', JStr (syntax_error_message e raw))]))),
                 w\<lparr>console := console w @
                    [ConsoleError [Text (js ''JSON parse error:''),
                                   Thrown (SyntaxError (syntax_error_message e raw))],
                     ConsoleError [Text (js ''Raw body:''), Text (take 200 raw)]]\<rparr>)
            | Some payload \<Rightarrow>
        (let f = read_image_fields payload
         in if \<not> truthy (imageDataUrl f) \<or> \<not> truthy (mimeType f) then
              (Inr (Response 400 (error_body (js ''Missing imageDataUrl or mimeType''))), w)
            else
        (case mimeType f of
           Some (JStr m) \<Rightarrow>
             if m \<notin> set allowedMimeTypes then
               (Inr (Response 400 (error_body (js ''Only JPG, JPEG, PNG are allowed''))), w)
             else
        (case imageDataUrl f of
           Some (JStr url) \<Rightarrow>
             (let base64 = strip_data_url url;
                  w1 = w\<lparr>model_calls := model_calls w + 1\<rparr>
              in case model_reply e (Base64Decoded base64) m of
                   Inl err \<Rightarrow> (Inl err, w1)
                 | Inr reply \<Rightarrow>
             (case netlify_analyze_text reply of
                   Inl err \<Rightarrow> (Inl err, w1)
                 | Inr a \<Rightarrow>
             (case safe_name e (originalName f) of
                   Inl err \<Rightarrow> (Inl err, w1)
                 | Inr safeName \<Rightarrow>
                     (Inr (netlify_analyze_ok safeName a),
                      analyze_blobs e safeName base64 a w1))))
         | _ \<Rightarrow> (Inl (TypeError (js ''imageDataUrl.replace is not a function'')), w))
         | _ \<Rightarrow> (Inr (Response 400 (error_body (js ''Only JPG, JPEG, PNG are allowed''))), w)))))"

text \<open>The outer catch block.\<close>

definition analyze_handler :: "env \<Rightarrow> event \<Rightarrow> world \<Rightarrow> response \<times> world" where
  "analyze_handler e ev w =
     (case analyze_try e ev w of
        (Inl err, w1) \<Rightarrow>
          (Response 500 (error_body (if message err = [] then js ''Analysis failed'' else message err)),
           w1)
      | (Inr r, w1) \<Rightarrow> (r, w1))"

section \<open>The image scaling of the Report Renderer\<close>

text \<open>
  Lines 192 to 198 of public/script.js compute on JavaScript numbers, that is on
  doubles; all of them are positive there. \<open>Double m k\<close> is the double \<open>m * 2 ^ k\<close>,
  and \<open>dval\<close> its value.
\<close>

datatype double = Double nat int

fun dval :: "double \<Rightarrow> rat" where
  "dval (Double m k) = of_nat m * 2 powi k"

text \<open>
  \<open>ilog2 n\<close> is the position of the leading bit of \<open>n\<close>, and \<open>binade a b\<close> the
  exponent \<open>e\<close> with \<open>2 ^ e \<le> a / b < 2 ^ (e + 1)\<close>.
\<close>

function ilog2 :: "nat \<Rightarrow> nat" where
  "ilog2 n = (if n < 2 then 0 else Suc (ilog2 (n div 2)))"
  by pat_completeness auto
termination
  by (relation "measure (\<lambda>n. n)") auto

declare ilog2.simps [simp del]

definition binade :: "nat \<Rightarrow> nat \<Rightarrow> int" where
  "binade a b =
     (let d = int (ilog2 a) - int (ilog2 b)
      in if of_nat b * 2 powi d \<le> (of_nat a :: rat) then d else d - 1)"

text \<open>
  The integer nearest to \<open>n / d\<close>, the even one of two that are equally near.
\<close>

definition round_half_even :: "nat \<Rightarrow> nat \<Rightarrow> nat" where
  "round_half_even n d =
     (let q = n div d; r = n mod d
      in if 2 * r < d then q else if d < 2 * r then q + 1 else if even q then q else q + 1)"

text \<open>
  The double nearest to the positive fraction \<open>a / b\<close>, as every arithmetic operation
  of IEEE 754 rounds its exact result: a significand of 53 bits, ties to the even
  significand. Exponents are not bounded; the numbers of the scaling are far from the
  overflow and underflow of doubles when the image is less than \<open>2 ^ 32\<close> pixels wide and
  high, as the type of \<^verbatim>\<open>img.width\<close> and \<^verbatim>\<open>img.height\<close> has it.
\<close>

definition round_double :: "nat \<Rightarrow> nat \<Rightarrow> double" where
  "round_double a b =
     (if a = 0 then Double 0 0
      else
        (let k = binade a b - 52
         in Double (if 0 \<le> k then round_half_even a (b * 2 ^ nat k)
                    else round_half_even (a * 2 ^ nat (- k)) b) k))"

text \<open>
  \<^verbatim>\<open>a / b\<close> on two integers below \<open>2 ^ 53\<close> (which are doubles), \<^verbatim>\<open>w * d\<close> on such
  an integer and a double, and \<^verbatim>\<open>Math.min\<close>.
\<close>

definition div_double :: "nat \<Rightarrow> nat \<Rightarrow> double" where
  "div_double a b = round_double a b"

fun mul_double :: "nat \<Rightarrow> double \<Rightarrow> double" where
  "mul_double w (Double m k) =
     (if 0 \<le> k then round_double (w * m * 2 ^ nat k) 1
      else round_double (w * m) (2 ^ nat (- k)))"

definition Math_min :: "double \<Rightarrow> double \<Rightarrow> double" where
  "Math_min x y = (if dval x \<le> dval y then x else y)"

text \<open>
  Lines 192 to 198: the width and the height handed to \<^verbatim>\<open>doc.addImage\<close> for an
  image of the given width and height.
\<close>

definition scaled_image :: "nat \<Rightarrow> nat \<Rightarrow> double \<times> double" where
  "scaled_image width height =
     (let margin = 40;
          maxW = 555 - margin;
          maxH = 260;
          scale = Math_min (div_double maxW width) (div_double maxH height)
      in (mul_double width scale, mul_double height scale))"

section \<open>Examples\<close>

text \<open>
  A world with an empty archive, an uploaded JPEG, and surroundings in which the clock
  shows 1700000000000 ms, the key is set, the model answers \<^verbatim>\<open>{}\<close> and every write
  succeeds; the two path functions have the values Node gives at the names occurring
  in the examples.
\<close>

definition world0 :: world where
  "world0 = \<lparr>files = Map.empty, console = [], model_calls = 0\<rparr>"

definition leaf_jpg :: upload where
  "leaf_jpg = \<lparr>originalname = js ''leaf.jpg'', mimetype = js ''image/jpeg'', bytes = [255, 216, 255]\<rparr>"

definition env0 :: env where
  "env0 =
     \<lparr>now = 1700000000000,
      iso_now = js ''2023-11-14T22:13:20.000Z'',
      write_error = (\<lambda>p. None),
      api_key_set = True,
      model_reply = (\<lambda>image mimeType. Inr (js ''{}'')),
      path_extname = (\<lambda>p. js ''.jpg''),
      path_parse_name = (\<lambda>p. js ''crop_1700000000000''),
      base64_utf8 = (\<lambda>s. s),
      syntax_error_message = (\<lambda>s. js ''Unexpected token''),
      no_replace_message = (\<lambda>v. js ''('' @ v @ js '' || ...).replace is not a function'')\<rparr>"

text \<open>The same surroundings with a disk that refuses one path.\<close>

definition disk_full :: jserror where
  "disk_full = Error (js ''ENOSPC: no space left on device, write'')"

definition refusing :: "jsstring \<Rightarrow> env" where
  "refusing p = env0\<lparr>write_error := (\<lambda>q. if q = p then Some disk_full else None)\<rparr>"

definition post_event :: "jsstring \<Rightarrow> event" where
  "post_event text = \<lparr>httpMethod = js ''POST'', isBase64Encoded = False, event_body = Some text\<rparr>"

text \<open>The stored upload, a world that holds it, and surroundings with another model answer.\<close>

definition stored_leaf :: stored where
  "stored_leaf = \<lparr>originalname = js ''leaf.jpg'', mimetype = js ''image/jpeg'', bytes = [255, 216, 255],
     path = js ''uploads/crop_1700000000000.jpg'', filename = js ''crop_1700000000000.jpg''\<rparr>"

definition world1 :: world where
  "world1 = \<lparr>files = [js ''uploads/crop_1700000000000.jpg'' \<mapsto> Bytes [255, 216, 255]],
     console = [], model_calls = 0\<rparr>"

definition answering :: "jsstring \<Rightarrow> env" where
  "answering text = env0\<lparr>model_reply := (\<lambda>image mimeType. Inr text)\<rparr>"

text \<open>A save-report request.\<close>

definition report_request :: json where
  "report_request =
     JObj [(js ''pdfDataUrl'', JStr (js ''data:application/pdf;base64,AAAA'')),
           (js ''baseName'', JStr (js ''my report'')),
           (js ''analysis'', JObj [(js ''disease'', JStr (js ''Rust''))])]"

section \<open>JSON texts and the fence pattern\<close>

lemma lit_chars_no_nl: "k < length (lit_chars l) \<Longrightarrow> lit_chars l ! k \<noteq> 10"
  by (cases l) (auto simp: nth_Cons' split: if_splits)

lemma step_between_nl: "step_between 10 = Some (Between, [])"
  by (simp add: step_between_def is_json_ws_def)

lemma step_number_nl: "step_number ph a 10 = Some (st', out) \<Longrightarrow> st' = Between"
  by (cases ph) (auto simp: end_number_def step_between_nl digit_val_def is_e_def)

lemma lex_step_nl: "lex_step st 10 = Some (st', out) \<Longrightarrow> st' = Between"
  by (cases st) (auto simp: step_between_nl unescape_def hex_val_def lit_chars_no_nl
      dest: step_number_nl split: if_splits)

lemma lex_step_tick: "lex_step Between 96 = None"
  by (simp add: step_between_def is_json_ws_def)

lemma lex_from_no_nl_tick: "lex_from st t = Some toks \<Longrightarrow> no_nl_tick t"
proof (induction t arbitrary: st toks rule: no_nl_tick.induct)
  case (1 a b cs)
  from "1.prems" obtain st1 o1 r1 where s1: "lex_step st a = Some (st1, o1)"
    and r1: "lex_from st1 (b # cs) = Some r1"
    by (auto split: option.splits)
  have "no_nl_tick (b # cs)" using "1.IH" r1 by blast
  moreover have "\<not> (a = 10 \<and> b = 96)"
  proof
    assume ab: "a = 10 \<and> b = 96"
    then have "st1 = Between" using s1 lex_step_nl by blast
    then show False using r1 ab lex_step_tick by simp
  qed
  ultimately show ?case by simp
qed simp_all

lemma JSON_parse_no_nl_tick: "JSON_parse t = Some v \<Longrightarrow> no_nl_tick t"
  by (auto simp: JSON_parse_def split: option.splits dest: lex_from_no_nl_tick)

lemma no_nl_tick_append: "no_nl_tick (a @ b) \<Longrightarrow> no_nl_tick a \<and> no_nl_tick b"
proof (induction a rule: no_nl_tick.induct)
  case (1 x y cs)
  then show ?case by simp
qed (simp, cases b, simp_all)

lemma no_nl_tick_drop: "no_nl_tick s \<Longrightarrow> no_nl_tick (drop k s)"
  using no_nl_tick_append [of "take k s" "drop k s"] by simp

lemma no_nl_tick_tl: "no_nl_tick (c # cs) \<Longrightarrow> no_nl_tick cs"
  using no_nl_tick_append [of "[c]" cs] by simp

lemma no_nl_tick_trim: "no_nl_tick s \<Longrightarrow> no_nl_tick (trim s)"
proof -
  assume s: "no_nl_tick s"
  let ?d = "dropWhile is_js_space s"
  have "s = takeWhile is_js_space s @ ?d" by simp
  then have d: "no_nl_tick ?d" using s no_nl_tick_append by metis
  have "rev ?d = takeWhile is_js_space (rev ?d) @ dropWhile is_js_space (rev ?d)" by simp
  then have "?d = rev (dropWhile is_js_space (rev ?d)) @ rev (takeWhile is_js_space (rev ?d))"
    by (metis rev_append rev_rev_ident)
  then have "no_nl_tick (rev (dropWhile is_js_space (rev ?d)))"
    using d no_nl_tick_append by metis
  then show ?thesis by (simp add: trim_def)
qed

lemma lazy_until_close_none: "no_nl_tick s \<Longrightarrow> lazy_until_close s = None"
proof (induction s)
  case Nil
  then show ?case by simp
next
  case (Cons c cs)
  have "\<not> prefix fence_close (c # cs)"
    using Cons.prems by (cases cs) (auto simp: fence_close_def)
  moreover have "lazy_until_close cs = None"
    using Cons no_nl_tick_tl by blast
  ultimately show ?case by simp
qed

lemma match_here_none: "no_nl_tick s \<Longrightarrow> match_here s = None"
  by (simp add: match_here_def Let_def lazy_until_close_none no_nl_tick_drop)

lemma fence_match_none: "no_nl_tick s \<Longrightarrow> fence_match s = None"
proof (induction s)
  case Nil
  then show ?case by simp
next
  case (Cons c cs)
  then show ?case using no_nl_tick_tl [of c cs] by (simp add: match_here_none)
qed

lemma lazy_until_close_fenced:
  "no_nl_tick t \<Longrightarrow> lazy_until_close (t @ fence_close) = Some t"
proof (induction t)
  case Nil
  then show ?case by (simp add: fence_close_def)
next
  case (Cons c cs)
  have "\<not> prefix fence_close (c # cs @ fence_close)"
    using Cons.prems by (cases cs) (auto simp: fence_close_def)
  moreover have "lazy_until_close (cs @ fence_close) = Some cs"
    using Cons no_nl_tick_tl by blast
  ultimately show ?case by simp
qed

lemma ci_json_nl: "\<not> ci_json (10 # xs)"
  by (auto simp: ci_json_def split: list.splits)

lemma match_here_untagged:
  assumes "no_nl_tick t"
  shows "match_here (fenced [] t) = Some t"
  using lazy_until_close_fenced [OF assms]
  by (simp add: match_here_def fenced_def fence_ticks_def ci_json_nl)

lemma match_here_tagged:
  assumes "ci_json tag" and "no_nl_tick t"
  shows "match_here (fenced tag t) = Some t"
proof -
  from assms(1) obtain a b c d where tag: "tag = [a, b, c, d]"
    by (auto simp: ci_json_def split: list.splits)
  have r: "drop 3 (fenced tag t) = tag @ 10 # t @ fence_close"
    by (simp add: fenced_def fence_ticks_def)
  have t4: "take 4 (tag @ 10 # t @ fence_close) = tag"
    by (simp add: tag)
  have d4: "drop 4 (tag @ 10 # t @ fence_close) = 10 # t @ fence_close"
    by (simp add: tag)
  have d5: "drop 5 (tag @ 10 # t @ fence_close) = t @ fence_close"
    by (simp add: tag)
  have p: "prefix fence_ticks (fenced tag t)"
    by (simp add: fenced_def)
  show ?thesis
    unfolding match_here_def Let_def r t4 d4 d5
    using p assms(1) lazy_until_close_fenced [OF assms(2)] by simp
qed

lemma match_here_fenced:
  assumes "tag = [] \<or> ci_json tag" and "no_nl_tick t"
  shows "match_here (fenced tag t) = Some t"
  using assms match_here_untagged match_here_tagged by blast

lemma fence_match_fenced:
  assumes "tag = [] \<or> ci_json tag" and "no_nl_tick t"
  shows "fence_match (fenced tag t) = Some t"
proof -
  obtain r where r: "fenced tag t = 96 # r"
    by (simp add: fenced_def fence_ticks_def)
  have "fence_match (96 # r) =
      (case match_here (96 # r) of Some g \<Rightarrow> Some g | None \<Rightarrow> fence_match r)"
    by simp
  then show ?thesis using match_here_fenced [OF assms] by (simp add: r)
qed

lemma trim_fenced: "trim (fenced tag t) = fenced tag t"
proof -
  have a: "dropWhile is_js_space (fenced tag t) = fenced tag t"
    by (simp add: fenced_def fence_ticks_def is_js_space_def)
  have b: "dropWhile is_js_space (rev (fenced tag t)) = rev (fenced tag t)"
    by (simp add: fenced_def fence_ticks_def fence_close_def is_js_space_def)
  show ?thesis by (simp add: trim_def a b)
qed

lemma extract_fenced:
  assumes "tag = [] \<or> ci_json tag" and "no_nl_tick t"
  shows "extract_json_text (fenced tag t) = trim t"
  by (simp add: extract_json_text_def trim_fenced fence_match_fenced [OF assms])

lemma extract_raw: "no_nl_tick t \<Longrightarrow> extract_json_text t = trim t"
  by (simp add: extract_json_text_def fence_match_none no_nl_tick_trim)

text \<open>
  Claim C3, as amended. For every text \<open>t\<close> that \<^verbatim>\<open>JSON.parse\<close> accepts, the
  extraction-plus-normalization step gives the same outcome on \<open>t\<close> and on the block
  \<open>fenced tag t\<close>: three backticks, the tag, a line feed, \<open>t\<close>, a line feed, three
  backticks, where the tag is empty or is \<open>json\<close> in any letter case.
\<close>

theorem fence_stripping_same_result:
  assumes "JSON_parse t \<noteq> None" and "tag = [] \<or> ci_json tag"
  shows "analyze_text (fenced tag t) = analyze_text t"
proof -
  from assms(1) obtain v where "JSON_parse t = Some v" by auto
  then have nt: "no_nl_tick t" by (rule JSON_parse_no_nl_tick)
  show ?thesis
    by (simp add: analyze_text_def extract_fenced [OF assms(2) nt] extract_raw [OF nt])
qed

section \<open>Claims about the Analysis Client and the Upload Receiver\<close>

lemmas eval_defs = JSON_parse_def step_between_def is_json_ws_def extract_json_text_def trim_def
  is_js_space_def match_here_def fence_ticks_def fence_close_def ci_json_def fenced_def
  analyze_text_def normalize_def get_prop_def own_prop_def digit_val_def end_number_def
  num_value_def num0_def is_e_def unescape_def hex_val_def

text \<open>
  Claim C3, witness: the text \<^verbatim>\<open>{}\<close> in a block tagged \<open>json\<close>.
\<close>

theorem fence_stripping_same_result_witness:
  "JSON_parse (js ''{}'') \<noteq> None \<and> (js ''json'' = [] \<or> ci_json (js ''json''))
   \<and> analyze_text (fenced (js ''json'') (js ''{}'')) = analyze_text (js ''{}'')
   \<and> analyze_text (js ''{}'') =
       Inr \<lparr>disease = js ''Unknown'', medicines = [], description = [], causes = []\<rparr>"
proof -
  have p: "JSON_parse (js ''{}'') \<noteq> None"
    by (simp add: JSON_parse_def step_between_def is_json_ws_def)
  have c: "js ''json'' = [] \<or> ci_json (js ''json'')"
    by (simp add: ci_json_def)
  have v: "analyze_text (js ''{}'') =
       Inr \<lparr>disease = js ''Unknown'', medicines = [], description = [], causes = []\<rparr>"
    by (simp add: eval_defs)
  show ?thesis using fence_stripping_same_result [OF p c] p c v by simp
qed

text \<open>
  Claim C3, counterexample: in a block tagged with another language name, here \<open>js\<close>,
  the fences are not stripped, the whole text goes to \<^verbatim>\<open>JSON.parse\<close> and the request
  fails, while the raw text \<^verbatim>\<open>{}\<close> gives the defaults.
\<close>

theorem fence_other_tag_counterexample:
  "analyze_text (fenced (js ''js'') (js ''{}'')) = Inl (Error (js ''Failed to parse AI response as JSON''))
   \<and> analyze_text (js ''{}'') =
       Inr \<lparr>disease = js ''Unknown'', medicines = [], description = [], causes = []\<rparr>"
  by (simp add: eval_defs)

text \<open>
  Claim C1, as amended. For every parsed value other than \<^verbatim>\<open>null\<close>, normalization
  does not throw: \<open>disease\<close> and \<open>description\<close> are the parsed strings or the defaults
  \<^verbatim>\<open>"Unknown"\<close> and the empty string, \<open>medicines\<close> and \<open>causes\<close> are the parsed
  arrays, with their elements as they came, or the empty array.
\<close>

theorem normalize_defaults:
  assumes "parsed \<noteq> JNull"
  shows "normalize parsed =
     Inr \<lparr>disease = string_or (own_prop parsed (js ''disease'')) (js ''Unknown''),
          medicines = array_or_empty (own_prop parsed (js ''medicines'')),
          description = string_or (own_prop parsed (js ''description'')) [],
          causes = array_or_empty (own_prop parsed (js ''causes''))\<rparr>"
  using assms by (cases parsed) (simp_all add: normalize_def get_prop_def)

text \<open>
  Claim C1, witness: an object with a string, an array of mixed elements and a
  \<^verbatim>\<open>null\<close> description.
\<close>

theorem normalize_defaults_witness:
  "JObj [(js ''disease'', JStr (js ''Rust'')), (js ''medicines'', JArr [JStr (js ''Sulfur''), JNum 2]),
         (js ''description'', JNull)] \<noteq> JNull
   \<and> normalize (JObj [(js ''disease'', JStr (js ''Rust'')),
                       (js ''medicines'', JArr [JStr (js ''Sulfur''), JNum 2]),
                       (js ''description'', JNull)]) =
       Inr \<lparr>disease = js ''Rust'', medicines = [JStr (js ''Sulfur''), JNum 2],
            description = [], causes = []\<rparr>"
  using normalize_defaults [of "JObj [(js ''disease'', JStr (js ''Rust'')),
      (js ''medicines'', JArr [JStr (js ''Sulfur''), JNum 2]), (js ''description'', JNull)]"]
  by (simp add: own_prop_def)

text \<open>
  Claim C1, counterexample: an array of numbers passes as \<open>medicines\<close>, so the result
  need not hold sequences of strings; and on the parse result \<^verbatim>\<open>null\<close> the first
  property read throws.
\<close>

theorem normalize_counterexample:
  "normalize (JObj [(js ''medicines'', JArr [JNum 1])]) =
     Inr \<lparr>disease = js ''Unknown'', medicines = [JNum 1], description = [], causes = []\<rparr>
   \<and> \<not> all_strings [JNum 1]
   \<and> normalize JNull =
       Inl (TypeError (js ''Cannot read properties of null (reading '' @ [39] @ js ''disease'' @ [39, 41]))"
  by (simp add: normalize_def get_prop_def own_prop_def all_strings_def)

text \<open>
  Claim C2, evaluated. With a disk that takes every write the upload of \<open>leaf.jpg\<close>
  is answered with the success response; when the write of the metadata record fails,
  with the same model answer, the request is answered 500 with the message of the
  write error.
\<close>

theorem analyze_meta_write_failure:
  "post_api_analyze env0 (Some leaf_jpg) world0 =
     (analyze_ok (js ''crop_1700000000000.jpg'')
        \<lparr>disease = js ''Unknown'', medicines = [], description = [], causes = []\<rparr>,
      \<lparr>files = [js ''uploads/crop_1700000000000.jpg'' \<mapsto> Bytes [255, 216, 255],
                js ''reports/meta/crop_1700000000000.json'' \<mapsto>
                  JsonText (JObj [(js ''timestamp'', JStr (js ''2023-11-14T22:13:20.000Z'')),
                                  (js ''imageFilename'', JStr (js ''crop_1700000000000.jpg'')),
                                  (js ''disease'', JStr (js ''Unknown'')),
                                  (js ''medicines'', JArr []),
                                  (js ''description'', JStr []),
                                  (js ''causes'', JArr [])])],
       console = [], model_calls = 1\<rparr>)
   \<and> post_api_analyze (refusing (js ''reports/meta/crop_1700000000000.json'')) (Some leaf_jpg) world0 =
     (Response 500 (error_body (js ''ENOSPC: no space left on device, write'')),
      \<lparr>files = [js ''uploads/crop_1700000000000.jpg'' \<mapsto> Bytes [255, 216, 255]],
       console = [ConsoleError [Thrown disk_full]], model_calls = 1\<rparr>)"
  by (simp add: post_api_analyze_def upload_single_def fileFilter_def allowedMimeTypes_def
      fileSize_limit_def storage_filename_def env0_def refusing_def leaf_jpg_def world0_def
      writeFileSync_def path_join_def uploadsDir_def metaDir_def reportsDir_def
      api_analyze_def analyzeWithGemini_def analyze_failed_def analyze_ok_def
      analysis_members_def disk_full_def show_int_def show_nat.simps digit_char_def Let_def eval_defs)

text \<open>In general: once the analysis has succeeded, an error of the metadata write is the answer.\<close>

lemma analyze_write_failure_is_fatal:
  assumes "analyzeWithGemini e (path f) (mimetype f) w = (Inr a, w1)"
    and "write_error e (path_join metaDir (path_parse_name e (filename f) @ js ''.json'')) = Some err"
  shows "api_analyze e (Some f) w = analyze_failed err w1"
  using assms by (simp add: api_analyze_def writeFileSync_def Let_def)

text \<open>
  The sibling on Netlify does not fail on storage: whatever the writes do, a request
  whose analysis succeeded is answered with the success response.
\<close>

lemma netlify_analyze_tolerates_storage_failure:
  assumes "httpMethod ev = js ''POST''" and "\<not> isBase64Encoded ev"
    and "event_body ev = Some raw" and "JSON_parse raw = Some payload"
    and "read_image_fields payload =
           \<lparr>imageDataUrl = Some (JStr url), mimeType = Some (JStr m), originalName = n\<rparr>"
    and "url \<noteq> []" and "m \<in> set allowedMimeTypes"
    and "model_reply e (Base64Decoded (strip_data_url url)) m = Inr reply"
    and "netlify_analyze_text reply = Inr a"
    and "safe_name e n = Inr safeName"
  shows "fst (analyze_handler e ev w) = netlify_analyze_ok safeName a"
proof -
  have "m \<noteq> []" using assms(7) by (auto simp: allowedMimeTypes_def)
  then show ?thesis
    using assms by (simp add: analyze_handler_def analyze_try_def Let_def)
qed

lemma netlify_analyze_example:
  "fst (analyze_handler (refusing (js ''uploads/leaf.jpg''))
         (post_event (js ''{\"imageDataUrl\":\"data:image/jpeg;base64,AAAA\",\"mimeType\":\"image/jpeg\",\"originalName\":\"leaf.jpg\"}''))
         world0) =
     netlify_analyze_ok (js ''leaf.jpg'')
       \<lparr>disease = js ''Unknown'', medicines = [], description = [], causes = []\<rparr>"
  by (simp add: analyze_handler_def analyze_try_def read_image_fields_def strip_data_url_def
      netlify_analyze_text_def safe_name_def sanitize_def safe_char_def allowedMimeTypes_def
      analyze_blobs_def createBlob_def blob_warning_def refusing_def env0_def world0_def
      post_event_def disk_full_def Let_def eval_defs)

text \<open>
  Claim C4. When the text extracted from the model's response is not JSON, the
  Analysis Client throws the error of line 101, after one call of the model, and the
  route answers 500 with that message; the archive is as it was, so no metadata record
  is written.
\<close>

theorem unparsable_response_fails:
  assumes "api_key_set e" and "files w (path f) = Some img"
    and "model_reply e img (mimetype f) = Inr text"
    and "JSON_parse (extract_json_text text) = None"
  shows "analyzeWithGemini e (path f) (mimetype f) w =
           (Inl (Error (js ''Failed to parse AI response as JSON'')),
            w\<lparr>model_calls := model_calls w + 1\<rparr>)
       \<and> api_analyze e (Some f) w =
           (Response 500 (error_body (js ''Failed to parse AI response as JSON'')),
            w\<lparr>model_calls := model_calls w + 1,
              console := console w @ [ConsoleError [Thrown (Error (js ''Failed to parse AI response as JSON''))]]\<rparr>)
       \<and> files (snd (api_analyze e (Some f) w)) = files w"
proof -
  have a: "analyzeWithGemini e (path f) (mimetype f) w =
           (Inl (Error (js ''Failed to parse AI response as JSON'')),
            w\<lparr>model_calls := model_calls w + 1\<rparr>)"
    using assms by (simp add: analyzeWithGemini_def analyze_text_def Let_def)
  have b: "api_analyze e (Some f) w =
           (Response 500 (error_body (js ''Failed to parse AI response as JSON'')),
            w\<lparr>model_calls := model_calls w + 1,
              console := console w @ [ConsoleError [Thrown (Error (js ''Failed to parse AI response as JSON''))]]\<rparr>)"
    by (simp add: api_analyze_def a analyze_failed_def)
  show ?thesis by (simp add: a b)
qed




text \<open>
  Claim C4, witness: the model answers \<^verbatim>\<open>not json\<close>.
\<close>

theorem unparsable_response_fails_witness:
  "api_key_set (answering (js ''not json''))
   \<and> files world1 (path stored_leaf) = Some (Bytes [255, 216, 255])
   \<and> model_reply (answering (js ''not json'')) (Bytes [255, 216, 255]) (mimetype stored_leaf) = Inr (js ''not json'')
   \<and> JSON_parse (extract_json_text (js ''not json'')) = None
   \<and> api_analyze (answering (js ''not json'')) (Some stored_leaf) world1 =
       (Response 500 (error_body (js ''Failed to parse AI response as JSON'')),
        \<lparr>files = [js ''uploads/crop_1700000000000.jpg'' \<mapsto> Bytes [255, 216, 255]],
         console = [ConsoleError [Thrown (Error (js ''Failed to parse AI response as JSON''))]],
         model_calls = 1\<rparr>)"
proof -
  have 1: "api_key_set (answering (js ''not json''))"
    by (simp add: answering_def env0_def)
  have 2: "files world1 (path stored_leaf) = Some (Bytes [255, 216, 255])"
    by (simp add: world1_def stored_leaf_def)
  have 3: "model_reply (answering (js ''not json'')) (Bytes [255, 216, 255]) (mimetype stored_leaf) = Inr (js ''not json'')"
    by (simp add: answering_def env0_def)
  have 4: "JSON_parse (extract_json_text (js ''not json'')) = None"
    by (simp add: eval_defs)
  show ?thesis
    using unparsable_response_fails [OF 1 2 3 4] 1 2 3 4 by (simp add: world1_def)
qed

text \<open>
  Claim C5. An upload whose MIME type is none of \<^verbatim>\<open>image/jpeg\<close>, \<^verbatim>\<open>image/jpg\<close>,
  \<^verbatim>\<open>image/png\<close> is refused by the filter with the error of line 44; the request
  ends with it and the world is as it was: nothing is stored.
\<close>

theorem disallowed_mime_rejected:
  assumes "mimetype f \<notin> {js ''image/jpeg'', js ''image/jpg'', js ''image/png''}"
  shows "fileFilter f = Inl (Error (js ''Only JPG, JPEG, PNG are allowed''))
       \<and> post_api_analyze e (Some f) w = (NextError (Error (js ''Only JPG, JPEG, PNG are allowed'')), w)"
  using assms
  by (simp add: post_api_analyze_def upload_single_def fileFilter_def allowedMimeTypes_def)

text \<open>
  Claim C5, witness: a GIF.
\<close>

theorem disallowed_mime_rejected_witness:
  "mimetype (leaf_jpg\<lparr>mimetype := js ''image/gif''\<rparr>) \<notin> {js ''image/jpeg'', js ''image/jpg'', js ''image/png''}
   \<and> post_api_analyze env0 (Some (leaf_jpg\<lparr>mimetype := js ''image/gif''\<rparr>)) world0 =
       (NextError (Error (js ''Only JPG, JPEG, PNG are allowed'')), world0)"
proof -
  have 1: "mimetype (leaf_jpg\<lparr>mimetype := js ''image/gif''\<rparr>) \<notin> {js ''image/jpeg'', js ''image/jpg'', js ''image/png''}"
    by simp
  show ?thesis using disallowed_mime_rejected [OF 1] 1 by simp
qed

text \<open>
  Claim C6. An upload of more than 10 MB ends the request in the upload middleware,
  with an error and the world as it was: the handler does not run and the model is
  not called.
\<close>

theorem oversized_upload_rejected:
  assumes "10 * 1024 * 1024 < length (bytes f)"
  shows "post_api_analyze e (Some f) w =
           (NextError (if mimetype f \<in> set allowedMimeTypes then MulterError (js ''File too large'')
                       else Error (js ''Only JPG, JPEG, PNG are allowed'')), w)"
  using assms
  by (simp add: post_api_analyze_def upload_single_def fileFilter_def fileSize_limit_def)

text \<open>
  Claim C6, witness: a JPEG one byte over the limit.
\<close>

theorem oversized_upload_rejected_witness:
  "10 * 1024 * 1024 < length (bytes (leaf_jpg\<lparr>bytes := replicate 10485761 0\<rparr>))
   \<and> post_api_analyze env0 (Some (leaf_jpg\<lparr>bytes := replicate 10485761 0\<rparr>)) world0 =
       (NextError (MulterError (js ''File too large'')), world0)"
proof -
  have 1: "10 * 1024 * 1024 < length (bytes (leaf_jpg\<lparr>bytes := replicate 10485761 0\<rparr>))"
    by simp
  show ?thesis
    using oversized_upload_rejected [OF 1, of env0 world0] 1
    by (simp add: allowedMimeTypes_def leaf_jpg_def)
qed

section \<open>Claims about saving a report\<close>

lemma safe_char_sanitize: "list_all safe_char (sanitize s)"
  by (induction s) (simp_all add: sanitize_def safe_char_def)

lemma sanitize_safe: "list_all safe_char s \<Longrightarrow> sanitize s = s"
  by (induction s) (simp_all add: sanitize_def)

lemma safe_char_digit: "d < 10 \<Longrightarrow> safe_char (digit_char d)"
  by (simp add: safe_char_def digit_char_def)

lemma safe_char_show_nat: "list_all safe_char (show_nat n)"
proof (induction n rule: show_nat.induct)
  case (1 n)
  show ?case
  proof (cases "n < 10")
    case True
    then show ?thesis by (simp add: show_nat.simps [of n] safe_char_digit)
  next
    case False
    then have "list_all safe_char (show_nat (n div 10))" using "1" by simp
    moreover have "safe_char (digit_char (n mod 10))" by (simp add: safe_char_digit)
    ultimately show ?thesis using False by (simp add: show_nat.simps [of n])
  qed
qed

lemma safe_char_show_int: "list_all safe_char (show_int i)"
  by (simp add: show_int_def safe_char_show_nat) (simp add: safe_char_def)

lemma safe_char_generated: "list_all safe_char (js ''analysis_'' @ show_int i)"
  by (simp add: safe_char_show_int) (simp add: safe_char_def)

lemma safe_base_generated:
  "\<not> truthy b \<Longrightarrow> safe_base e b = Inr (js ''analysis_'' @ show_int (now e))"
  using sanitize_safe [OF safe_char_generated] by (simp add: safe_base_def)

lemma safe_base_safe: "safe_base e b = Inr sb \<Longrightarrow> list_all safe_char sb"
  using safe_char_sanitize
  by (auto simp: safe_base_def split: if_splits option.splits json.splits)

lemma safe_base_supplied:
  "s \<noteq> [] \<Longrightarrow> safe_base e (Some (JStr s)) = Inr (sanitize s)"
  by (simp add: safe_base_def)

lemma path_join_reports: "path_join reportsDir (sb @ js ''.pdf'') = js ''reports/'' @ sb @ js ''.pdf''"
  by (simp add: path_join_def reportsDir_def)

lemma safe_base_cases:
  assumes "safe_base e bn = Inr base"
  shows "list_all safe_char base
       \<and> (\<forall>s. bn = Some (JStr s) \<and> s \<noteq> [] \<longrightarrow> base = sanitize s)
       \<and> (\<not> truthy bn \<longrightarrow> base = js ''analysis_'' @ show_int (now e))"
proof -
  have "list_all safe_char base" using assms by (rule safe_base_safe)
  moreover have "\<forall>s. bn = Some (JStr s) \<and> s \<noteq> [] \<longrightarrow> base = sanitize s"
    using assms by (auto simp: safe_base_supplied)
  moreover have "\<not> truthy bn \<longrightarrow> base = js ''analysis_'' @ show_int (now e)"
    using assms by (auto simp: safe_base_generated)
  ultimately show ?thesis by blast
qed

lemma read_fields_baseName: "read_fields v = Inr f \<Longrightarrow> baseName f = own_prop v (js ''baseName'')"
  by (cases v) (auto simp: read_fields_def)

lemma read_fields_pdfDataUrl: "read_fields v = Inr f \<Longrightarrow> pdfDataUrl f = own_prop v (js ''pdfDataUrl'')"
  by (cases v) (auto simp: read_fields_def)

lemma express_written:
  assumes "files (snd (api_save_report e reqbody w)) k = Some (Base64Decoded d)"
    and "files w k \<noteq> Some (Base64Decoded d)"
  shows "\<exists>base. safe_base e (own_prop (body_or_empty reqbody) (js ''baseName'')) = Inr base
          \<and> k = js ''reports/'' @ base @ js ''.pdf''"
  using assms
  by (auto simp: api_save_report_def save_report_try_def Let_def writeFileSync_def
      path_join_def reportsDir_def report_meta_def save_failed_def
      dest!: read_fields_baseName
      split: sum.splits option.splits if_splits prod.splits)

lemma netlify_written:
  assumes "files (snd (handler e ev w)) k = Some (Base64Decoded d)"
    and "files w k \<noteq> Some (Base64Decoded d)"
    and "read_payload e ev = Inr payload"
  shows "\<exists>base. safe_base e (own_prop payload (js ''baseName'')) = Inr base
          \<and> k = js ''reports/'' @ base @ js ''.pdf''"
  using assms
  by (auto simp: handler_def handler_try_def Let_def save_blobs_def createBlob_def
      report_meta_def
      dest!: read_fields_baseName
      split: sum.splits option.splits if_splits prod.splits)

text \<open>
  Claim C8. Whenever one of the two save-report operations has put a document into
  the archive, its key is \<^verbatim>\<open>reports/<base>.pdf\<close> with every code unit of the base in
  \<^verbatim>\<open>[a-zA-Z0-9_.-]\<close>; the base is the sanitized base name when the caller supplied a
  non-empty string, and \<^verbatim>\<open>analysis_<Date.now()>\<close> when the base name is missing or
  falsy.
\<close>

theorem saved_report_key:
  assumes "(files (snd (api_save_report e reqbody w)) k = Some (Base64Decoded d)
            \<and> bn = own_prop (body_or_empty reqbody) (js ''baseName''))
         \<or> (files (snd (handler e ev w)) k = Some (Base64Decoded d)
            \<and> read_payload e ev = Inr payload \<and> bn = own_prop payload (js ''baseName''))"
    and "files w k \<noteq> Some (Base64Decoded d)"
  shows "\<exists>base. k = js ''reports/'' @ base @ js ''.pdf''
          \<and> list_all safe_char base
          \<and> (\<forall>s. bn = Some (JStr s) \<and> s \<noteq> [] \<longrightarrow> base = sanitize s)
          \<and> (\<not> truthy bn \<longrightarrow> base = js ''analysis_'' @ show_int (now e))"
proof -
  from assms have "\<exists>base. safe_base e bn = Inr base \<and> k = js ''reports/'' @ base @ js ''.pdf''"
    using express_written netlify_written by blast
  then obtain base where b: "safe_base e bn = Inr base" and k: "k = js ''reports/'' @ base @ js ''.pdf''"
    by blast
  show ?thesis using safe_base_cases [OF b] k by blast
qed


lemmas save_defs = api_save_report_def save_report_try_def body_or_empty_def read_fields_def
  own_prop_def pdf_guard_def startsWith_def pdf_prefix_def safe_base_def sanitize_def safe_char_def
  path_join_def reportsDir_def metaDir_def writeFileSync_def createBlob_def report_meta_def
  save_ok_def save_failed_def invalid_pdf_def error_body_def env0_def world0_def refusing_def
  disk_full_def handler_def handler_try_def read_payload_def post_event_def save_blobs_def
  blob_warning_def show_int_def show_nat.simps digit_char_def Let_def

lemma express_example:
  "api_save_report env0 (Some report_request) world0 =
     (save_ok (js ''/reports/my_report.pdf''),
      \<lparr>files = [js ''reports/my_report.pdf'' \<mapsto> Base64Decoded (js ''AAAA''),
                js ''reports/meta/my_report.json'' \<mapsto>
                  JsonText (JObj [(js ''analysis'', JObj [(js ''disease'', JStr (js ''Rust''))])])],
       console = [], model_calls = 0\<rparr>)"
  by (simp add: report_request_def save_defs)

text \<open>
  Claim C8, witness: the Express route stores the report named \<^verbatim>\<open>my report\<close>.
\<close>

theorem saved_report_key_witness:
  "files (snd (api_save_report env0 (Some report_request) world0)) (js ''reports/my_report.pdf'')
     = Some (Base64Decoded (js ''AAAA''))
   \<and> Some (JStr (js ''my report'')) = own_prop (body_or_empty (Some report_request)) (js ''baseName'')
   \<and> files world0 (js ''reports/my_report.pdf'') \<noteq> Some (Base64Decoded (js ''AAAA''))
   \<and> (\<exists>base. js ''reports/my_report.pdf'' = js ''reports/'' @ base @ js ''.pdf''
          \<and> list_all safe_char base
          \<and> (\<forall>s. Some (JStr (js ''my report'')) = Some (JStr s) \<and> s \<noteq> [] \<longrightarrow> base = sanitize s)
          \<and> (\<not> truthy (Some (JStr (js ''my report''))) \<longrightarrow> base = js ''analysis_'' @ show_int (now env0)))"
proof -
  have 1: "files (snd (api_save_report env0 (Some report_request) world0)) (js ''reports/my_report.pdf'')
     = Some (Base64Decoded (js ''AAAA''))"
    by (simp add: express_example)
  have 2: "Some (JStr (js ''my report'')) = own_prop (body_or_empty (Some report_request)) (js ''baseName'')"
    by (simp add: report_request_def body_or_empty_def own_prop_def)
  have 3: "files world0 (js ''reports/my_report.pdf'') \<noteq> Some (Base64Decoded (js ''AAAA''))"
    by (simp add: world0_def)
  from 1 2 have 4:
    "(files (snd (api_save_report env0 (Some report_request) world0)) (js ''reports/my_report.pdf'')
        = Some (Base64Decoded (js ''AAAA''))
      \<and> Some (JStr (js ''my report'')) = own_prop (body_or_empty (Some report_request)) (js ''baseName''))
     \<or> (files (snd (handler env0 (post_event []) world0)) (js ''reports/my_report.pdf'')
        = Some (Base64Decoded (js ''AAAA''))
      \<and> read_payload env0 (post_event []) = Inr JNull
      \<and> Some (JStr (js ''my report'')) = own_prop JNull (js ''baseName''))"
    by blast
  show ?thesis using saved_report_key [OF 4 3] 1 2 3 by blast
qed

text \<open>
  Claim C7, evaluated. A document payload that is the number 5 does not begin with the
  prefix, yet neither operation answers with the invalid-document response: the call of
  \<^verbatim>\<open>startsWith\<close> throws and the answer is the 500 of the catch block. On Netlify the
  same happens for the body \<^verbatim>\<open>null\<close>, whose payload is missing.
\<close>

theorem save_report_non_string_payload:
  "api_save_report env0 (Some (JObj [(js ''pdfDataUrl'', JNum 5)])) world0 =
     (save_failed,
      world0\<lparr>console := [ConsoleError [Thrown (TypeError (js ''pdfDataUrl.startsWith is not a function''))]]\<rparr>)
   \<and> handler env0 (post_event (js ''{\"pdfDataUrl\":5}'')) world0 = (save_failed, world0)
   \<and> handler env0 (post_event (js ''null'')) world0 = (save_failed, world0)
   \<and> save_failed \<noteq> invalid_pdf"
  by (simp add: save_defs eval_defs)

lemma pdf_guard_valid:
  "startsWith url pdf_prefix \<Longrightarrow> pdf_guard (Some (JStr url)) = Inr (Some url)"
  by (auto simp: pdf_guard_def startsWith_def pdf_prefix_def)

lemma read_fields_own_prop:
  "own_prop payload k = Some v \<Longrightarrow> read_fields payload =
     Inr \<lparr>pdfDataUrl = own_prop payload (js ''pdfDataUrl''),
          baseName = own_prop payload (js ''baseName''),
          analysis_field = own_prop payload (js ''analysis''),
          imageFilename = own_prop payload (js ''imageFilename'')\<rparr>"
  by (cases payload) (simp_all add: read_fields_def own_prop_def)

text \<open>
  Claim C10. On Netlify a POST request whose document payload begins with the PDF
  prefix is answered with status 200, \<^verbatim>\<open>success: true\<close> and the retrieval path
  \<^verbatim>\<open>/.netlify/blobs/reports/<base>.pdf\<close>, whatever the storage does; when the write
  of the document fails, the world only gains the warning on the console: nothing is
  stored.
\<close>

theorem netlify_success_without_document:
  assumes "httpMethod ev = js ''POST''"
    and "read_payload e ev = Inr payload"
    and "own_prop payload (js ''pdfDataUrl'') = Some (JStr url)"
    and "prefix (js ''data:application/pdf;base64,'') url"
    and "safe_base e (own_prop payload (js ''baseName'')) = Inr sb"
  shows "fst (handler e ev w) =
           Response 200 (JsonBody (JObj
             [(js ''success'', JBool True),
              (js ''reportUrl'', JStr (js ''/.netlify/blobs/reports/'' @ sb @ js ''.pdf''))]))
       \<and> (\<forall>err. write_error e (js ''reports/'' @ sb @ js ''.pdf'') = Some err \<longrightarrow>
            snd (handler e ev w) =
              w\<lparr>console := console w @
                  [ConsoleWarn [Text (js ''Blob save failed:''),
                                if message err = [] then Thrown err else Text (message err)]]\<rparr>)"
proof -
  have p: "startsWith url pdf_prefix"
    using assms(4) by (simp add: startsWith_def pdf_prefix_def)
  show ?thesis
    using assms(1,2,3,5)
    by (simp add: handler_def handler_try_def read_fields_own_prop [OF assms(3)]
        pdf_guard_valid [OF p] Let_def save_blobs_def createBlob_def save_ok_def blob_warning_def)
qed

text \<open>
  Claim C10, witness: the blob store refuses the document.
\<close>

theorem netlify_success_without_document_witness:
  "httpMethod (post_event (js ''{\"pdfDataUrl\":\"data:application/pdf;base64,AAAA\",\"baseName\":\"r1\"}'')) = js ''POST''
   \<and> handler (refusing (js ''reports/r1.pdf''))
        (post_event (js ''{\"pdfDataUrl\":\"data:application/pdf;base64,AAAA\",\"baseName\":\"r1\"}'')) world0
      = (Response 200 (JsonBody (JObj
           [(js ''success'', JBool True),
            (js ''reportUrl'', JStr (js ''/.netlify/blobs/reports/r1.pdf''))])),
         \<lparr>files = Map.empty,
          console = [ConsoleWarn [Text (js ''Blob save failed:''),
                                Text (js ''ENOSPC: no space left on device, write'')]],
          model_calls = 0\<rparr>)"
proof -
  let ?t = "js ''{\"pdfDataUrl\":\"data:application/pdf;base64,AAAA\",\"baseName\":\"r1\"}''"
  let ?p = "JObj [(js ''pdfDataUrl'', JStr (js ''data:application/pdf;base64,AAAA'')),
                  (js ''baseName'', JStr (js ''r1''))]"
  let ?e = "refusing (js ''reports/r1.pdf'')"
  have 1: "httpMethod (post_event ?t) = js ''POST''"
    by (simp add: post_event_def)
  have 2: "read_payload ?e (post_event ?t) = Inr ?p"
    by (simp add: read_payload_def post_event_def eval_defs)
  have 3: "own_prop ?p (js ''pdfDataUrl'') = Some (JStr (js ''data:application/pdf;base64,AAAA''))"
    by (simp add: own_prop_def)
  have 4: "prefix (js ''data:application/pdf;base64,'') (js ''data:application/pdf;base64,AAAA'')"
    by simp
  have 5: "safe_base ?e (own_prop ?p (js ''baseName'')) = Inr (js ''r1'')"
    by (simp add: own_prop_def safe_base_def sanitize_def safe_char_def)
  have 6: "write_error ?e (js ''reports/'' @ js ''r1'' @ js ''.pdf'') = Some disk_full"
    by (simp add: refusing_def)
  show ?thesis
    using netlify_success_without_document [OF 1 2 3 4 5, of world0] 1 6
    by (simp add: prod_eq_iff disk_full_def world0_def)
qed

text \<open>
  A request whose document payload is not a string beginning with the prefix is answered
  with one of the two error responses and nothing is written; the response is the
  invalid-document one when the payload is missing, falsy or a string.
\<close>

lemma express_rejects_without_write:
  assumes "\<not> (\<exists>s. own_prop (body_or_empty reqbody) (js ''pdfDataUrl'') = Some (JStr s)
              \<and> startsWith s pdf_prefix)"
  shows "files (snd (api_save_report e reqbody w)) = files w
       \<and> fst (api_save_report e reqbody w) \<in> {invalid_pdf, save_failed}"
  using assms
  by (auto simp: api_save_report_def save_report_try_def Let_def pdf_guard_def
      dest!: read_fields_pdfDataUrl
      split: sum.splits option.splits if_splits prod.splits json.splits)

lemma express_invalid_document:
  assumes "own_prop (body_or_empty reqbody) (js ''pdfDataUrl'') = p"
    and "\<not> truthy p \<or> (\<exists>s. p = Some (JStr s) \<and> \<not> startsWith s pdf_prefix)"
  shows "api_save_report e reqbody w = (invalid_pdf, w)"
proof -
  have g: "pdf_guard p = Inr None"
    using assms(2) by (auto simp: pdf_guard_def)
  have n: "body_or_empty reqbody \<noteq> JNull"
    by (auto simp: body_or_empty_def split: option.splits)
  then obtain f where f: "read_fields (body_or_empty reqbody) = Inr f"
    by (cases "body_or_empty reqbody") (auto simp: read_fields_def)
  show ?thesis
    using read_fields_pdfDataUrl [OF f] assms(1) g
    by (simp add: api_save_report_def save_report_try_def f)
qed

lemma netlify_rejects_without_write:
  assumes "\<not> (\<exists>payload s. read_payload e ev = Inr payload
              \<and> own_prop payload (js ''pdfDataUrl'') = Some (JStr s) \<and> startsWith s pdf_prefix)"
    and "httpMethod ev = js ''POST''"
  shows "snd (handler e ev w) = w
       \<and> fst (handler e ev w) \<in> {invalid_pdf, save_failed}"
  using assms
  by (auto simp: handler_def handler_try_def Let_def pdf_guard_def
      dest!: read_fields_pdfDataUrl
      split: sum.splits option.splits if_splits prod.splits json.splits)

text \<open>A truthy payload that is not a string is answered with the response of the catch block.\<close>

lemma express_non_string_payload:
  assumes "own_prop (body_or_empty reqbody) (js ''pdfDataUrl'') = p"
    and "truthy p" and "\<forall>s. p \<noteq> Some (JStr s)"
  shows "fst (api_save_report e reqbody w) = save_failed
       \<and> files (snd (api_save_report e reqbody w)) = files w"
proof -
  have g: "pdf_guard p = Inl (TypeError (js ''pdfDataUrl.startsWith is not a function''))"
    using assms(2,3) by (auto simp: pdf_guard_def split: option.splits json.splits)
  have "body_or_empty reqbody \<noteq> JNull"
    by (auto simp: body_or_empty_def split: option.splits)
  then obtain f where f: "read_fields (body_or_empty reqbody) = Inr f"
    by (cases "body_or_empty reqbody") (auto simp: read_fields_def)
  show ?thesis
    using read_fields_pdfDataUrl [OF f] assms(1) g
    by (simp add: api_save_report_def save_report_try_def f)
qed

section \<open>Claims about the Report Renderer\<close>

lemmas dbl_defs = scaled_image_def Math_min_def div_double_def round_double_def binade_def
  round_half_even_def ilog2.simps Let_def

lemma ilog2_bounds: "0 < n \<Longrightarrow> 2 ^ ilog2 n \<le> n \<and> n < 2 ^ Suc (ilog2 n)"
proof (induction n rule: ilog2.induct)
  case (1 n)
  show ?case
  proof (cases "n < 2")
    case True
    then have "ilog2 n = 0" by (simp add: ilog2.simps [of n])
    then show ?thesis using True "1.prems" by simp
  next
    case False
    then have pos: "0 < n div 2" by simp
    from "1.IH" [OF False pos]
    have lo: "2 ^ ilog2 (n div 2) \<le> n div 2" and hi: "n div 2 < 2 ^ Suc (ilog2 (n div 2))"
      by simp_all
    have e: "ilog2 n = Suc (ilog2 (n div 2))"
      using False by (simp add: ilog2.simps [of n])
    have "2 * 2 ^ ilog2 (n div 2) \<le> n" using lo by linarith
    moreover have "n < 2 * 2 ^ Suc (ilog2 (n div 2))" using hi by linarith
    ultimately show ?thesis by (simp add: e)
  qed
qed

lemma rhe_error:
  assumes "0 < d"
  shows "\<bar>(of_nat (round_half_even n d) :: rat) - of_nat n / of_nat d\<bar> \<le> 1 / 2"
proof -
  define q where "q = n div d"
  define r where "r = n mod d"
  have n: "n = q * d + r" by (simp add: q_def r_def)
  have rd: "r < d" using assms by (simp add: r_def)
  have d0: "(of_nat d :: rat) > 0" using assms by simp
  have frac: "(of_nat n :: rat) / of_nat d = of_nat q + of_nat r / of_nat d"
    using d0 by (simp add: n field_simps)
  consider "2 * r < d" | "d < 2 * r" | "2 * r = d" by linarith
  then show ?thesis
  proof cases
    case 1
    then have "(of_nat (2 * r) :: rat) < of_nat d" by (simp only: of_nat_less_iff)
    then have "(of_nat r :: rat) / of_nat d < 1 / 2" using d0 by (simp add: field_simps)
    moreover have "round_half_even n d = q"
      using 1 by (simp add: round_half_even_def q_def r_def)
    ultimately show ?thesis using d0 by (simp add: frac)
  next
    case 2
    then have "(of_nat d :: rat) < of_nat (2 * r)" by (simp only: of_nat_less_iff)
    then have a: "1 / 2 < (of_nat r :: rat) / of_nat d" using d0 by (simp add: field_simps)
    have "(of_nat r :: rat) < of_nat d" using rd by (simp only: of_nat_less_iff)
    then have b: "(of_nat r :: rat) / of_nat d < 1" using d0 by simp
    have "round_half_even n d = q + 1"
      using 2 by (simp add: round_half_even_def q_def r_def)
    then show ?thesis using a b by (simp add: frac)
  next
    case 3
    then have "(of_nat (2 * r) :: rat) = of_nat d" by simp
    then have a: "(of_nat r :: rat) / of_nat d = 1 / 2" using d0 by (simp add: field_simps)
    have v: "(of_nat n :: rat) / of_nat d = of_nat q + 1 / 2" by (simp only: frac a)
    have "round_half_even n d = q \<or> round_half_even n d = q + 1"
      using 3 by (simp add: round_half_even_def q_def r_def Let_def)
    then show ?thesis
    proof
      assume "round_half_even n d = q"
      then show ?thesis by (simp add: v)
    next
      assume "round_half_even n d = q + 1"
      then show ?thesis by (simp add: v)
    qed
  qed
qed

lemma binade_lower:
  assumes "0 < a" and "0 < b"
  shows "2 powi (binade a b) \<le> (of_nat a :: rat) / of_nat b"
proof -
  define d where "d = int (ilog2 a) - int (ilog2 b)"
  have b0: "(of_nat b :: rat) > 0" using assms by simp
  show ?thesis
  proof (cases "of_nat b * 2 powi d \<le> (of_nat a :: rat)")
    case True
    then have "binade a b = d" by (simp add: binade_def d_def)
    moreover have "2 powi d \<le> (of_nat a :: rat) / of_nat b"
      using True b0 by (simp add: field_simps)
    ultimately show ?thesis by simp
  next
    case False
    then have e: "binade a b = d - 1" by (simp add: binade_def d_def)
    have la: "(2 :: rat) ^ ilog2 a \<le> of_nat a"
      using ilog2_bounds [OF assms(1)] by (metis of_nat_le_iff of_nat_numeral of_nat_power)
    have lb: "(of_nat b :: rat) < 2 ^ Suc (ilog2 b)"
      using ilog2_bounds [OF assms(2)] by (metis of_nat_less_iff of_nat_numeral of_nat_power)
    have "(2 :: rat) powi (d - 1) = 2 ^ ilog2 a / 2 ^ Suc (ilog2 b)"
      by (simp add: d_def power_int_diff)
    also have "\<dots> \<le> of_nat a / 2 ^ Suc (ilog2 b)"
      using la by (simp add: divide_right_mono)
    also have "\<dots> \<le> of_nat a / of_nat b"
      using lb b0 by (simp add: frac_le)
    finally show ?thesis by (simp add: e)
  qed
qed

lemma round_double_error:
  assumes "0 < a" and "0 < b"
  shows "\<bar>dval (round_double a b) - of_nat a / of_nat b\<bar> \<le> (of_nat a / of_nat b) / 2 ^ 53"
proof -
  define x :: rat where "x = of_nat a / of_nat b"
  define k where "k = binade a b - 52"
  define s :: rat where "s = 2 powi k"
  define m where "m = (if 0 \<le> k then round_half_even a (b * 2 ^ nat k)
                       else round_half_even (a * 2 ^ nat (- k)) b)"
  have s0: "0 < s" by (simp add: s_def)
  have b0: "(of_nat b :: rat) > 0" using assms by simp
  have rd: "round_double a b = Double m k"
    using assms by (simp add: round_double_def k_def m_def Let_def)
  have err: "\<bar>(of_nat m :: rat) - x / s\<bar> \<le> 1 / 2"
  proof (cases "0 \<le> k")
    case True
    then have sp: "s = 2 ^ nat k" by (simp add: s_def power_int_def)
    have "0 < b * 2 ^ nat k" using assms by simp
    from rhe_error [OF this, of a]
    have "\<bar>(of_nat (round_half_even a (b * 2 ^ nat k)) :: rat) - of_nat a / of_nat (b * 2 ^ nat k)\<bar> \<le> 1 / 2" .
    moreover have "(of_nat a :: rat) / of_nat (b * 2 ^ nat k) = x / s"
      by (simp add: x_def sp)
    ultimately show ?thesis using True by (simp add: m_def)
  next
    case False
    then have sp: "s = 1 / 2 ^ nat (- k)" by (simp add: s_def power_int_def field_simps)
    from rhe_error [OF assms(2), of "a * 2 ^ nat (- k)"]
    have "\<bar>(of_nat (round_half_even (a * 2 ^ nat (- k)) b) :: rat) - of_nat (a * 2 ^ nat (- k)) / of_nat b\<bar> \<le> 1 / 2" .
    moreover have "(of_nat (a * 2 ^ nat (- k)) :: rat) / of_nat b = x / s"
      by (simp add: x_def sp)
    ultimately show ?thesis using False by (simp add: m_def)
  qed
  have eq: "of_nat m * s - x = (of_nat m - x / s) * s"
    using s0 by (simp add: field_simps)
  have "\<bar>of_nat m * s - x\<bar> = \<bar>of_nat m - x / s\<bar> * s"
    unfolding eq abs_mult using s0 by simp
  also have "\<dots> \<le> (1 / 2) * s"
    using err s0 by (simp add: mult_right_mono)
  finally have e1: "\<bar>of_nat m * s - x\<bar> \<le> s / 2" by simp
  have "s / 2 = 2 powi (binade a b) / 2 ^ 53"
    by (simp add: s_def k_def power_int_diff)
  also have "\<dots> \<le> x / 2 ^ 53"
    using binade_lower [OF assms] by (simp add: x_def divide_right_mono)
  finally have "s / 2 \<le> x / 2 ^ 53" .
  with e1 have "\<bar>of_nat m * s - x\<bar> \<le> x / 2 ^ 53" by linarith
  then show ?thesis by (simp add: rd s_def x_def)
qed

lemma round_double_bounds:
  assumes "0 < a" and "0 < b"
  shows "(1 - 1 / 2 ^ 53) * (of_nat a / of_nat b) \<le> dval (round_double a b)"
    and "dval (round_double a b) \<le> (1 + 1 / 2 ^ 53) * (of_nat a / of_nat b)"
  using round_double_error [OF assms] by (simp_all add: abs_le_iff algebra_simps)

lemma round_double_pos:
  assumes "0 < a" and "0 < b"
  shows "0 < dval (round_double a b)"
proof -
  have "(0 :: rat) < of_nat a / of_nat b" using assms by simp
  then have "(0 :: rat) < (1 - 1 / 2 ^ 53) * (of_nat a / of_nat b)" by simp
  then show ?thesis using round_double_bounds(1) [OF assms] by linarith
qed

lemma mul_double_bounds:
  assumes "0 < w" and "0 < dval s"
  shows "(1 - 1 / 2 ^ 53) * (of_nat w * dval s) \<le> dval (mul_double w s)"
    and "dval (mul_double w s) \<le> (1 + 1 / 2 ^ 53) * (of_nat w * dval s)"
proof -
  obtain m k where s: "s = Double m k" by (cases s)
  have m0: "0 < m" using assms(2) by (cases "m = 0") (simp_all add: s)
  have both: "(1 - 1 / 2 ^ 53) * (of_nat w * dval s) \<le> dval (mul_double w s)
      \<and> dval (mul_double w s) \<le> (1 + 1 / 2 ^ 53) * (of_nat w * dval s)"
  proof (cases "0 \<le> k")
    case True
    have p: "0 < w * m * 2 ^ nat k" using assms(1) m0 by simp
    have f: "(of_nat (w * m * 2 ^ nat k) :: rat) / of_nat 1 = of_nat w * dval s"
      using True by (simp add: s power_int_def)
    show ?thesis
      using round_double_bounds [OF p, of 1] True unfolding f by (simp add: s)
  next
    case False
    have p: "0 < w * m" using assms(1) m0 by simp
    have q: "(0 :: nat) < 2 ^ nat (- k)" by simp
    have f: "(of_nat (w * m) :: rat) / of_nat (2 ^ nat (- k)) = of_nat w * dval s"
      using False by (simp add: s power_int_def field_simps)
    show ?thesis
      using round_double_bounds [OF p q] False unfolding f by (simp add: s)
  qed
  show "(1 - 1 / 2 ^ 53) * (of_nat w * dval s) \<le> dval (mul_double w s)" using both by simp
  show "dval (mul_double w s) \<le> (1 + 1 / 2 ^ 53) * (of_nat w * dval s)" using both by simp
qed

text \<open>
  Claim C9, as amended. An image of positive width and height is scaled by the single
  factor \<open>min (515 / w) (260 / h)\<close>, each quotient and each of the two products rounded
  to a double. The rendered image fits within the box up to rounding: its width is at
  most \<open>515 * (1 + 2 ^ - 53) ^ 2\<close> and its height at most \<open>260 * (1 + 2 ^ - 53) ^ 2\<close>;
  and the ratio of rendered width to rendered height is the ratio of the original up to
  the relative factor \<open>(1 + 2 ^ - 53) / (1 - 2 ^ - 53)\<close>, either way.
\<close>

theorem scaled_image_up_to_rounding:
  assumes "0 < w" and "0 < h" and "w < 2 ^ 32" and "h < 2 ^ 32"
  shows "scaled_image w h =
           (mul_double w (Math_min (div_double 515 w) (div_double 260 h)),
            mul_double h (Math_min (div_double 515 w) (div_double 260 h)))
       \<and> dval (fst (scaled_image w h)) \<le> 515 * (1 + 1 / 2 ^ 53) ^ 2
       \<and> dval (snd (scaled_image w h)) \<le> 260 * (1 + 1 / 2 ^ 53) ^ 2
       \<and> 0 < dval (snd (scaled_image w h))
       \<and> (1 - 1 / 2 ^ 53) / (1 + 1 / 2 ^ 53) * (of_nat w / of_nat h)
            \<le> dval (fst (scaled_image w h)) / dval (snd (scaled_image w h))
       \<and> dval (fst (scaled_image w h)) / dval (snd (scaled_image w h))
            \<le> (1 + 1 / 2 ^ 53) / (1 - 1 / 2 ^ 53) * (of_nat w / of_nat h)"
proof -
  define u :: rat where "u = 1 / 2 ^ 53"
  define s where "s = Math_min (div_double 515 w) (div_double 260 h)"
  define v where "v = dval s"
  define W where "W = dval (mul_double w s)"
  define H where "H = dval (mul_double h s)"
  have u0: "0 < u" and u1: "u < 1" by (simp_all add: u_def)
  have w0: "(0 :: rat) < of_nat w" and h0: "(0 :: rat) < of_nat h" using assms by simp_all
  have si: "scaled_image w h = (mul_double w s, mul_double h s)"
    by (simp add: scaled_image_def s_def Let_def)
  have v1: "v \<le> (1 + u) * (515 / of_nat w)"
  proof -
    have "v \<le> dval (div_double 515 w)" by (simp add: v_def s_def Math_min_def)
    also have "\<dots> \<le> (1 + u) * (of_nat 515 / of_nat w)"
      unfolding div_double_def u_def using round_double_bounds(2) [of 515 w] assms(1) by simp
    finally show ?thesis by simp
  qed
  have v2: "v \<le> (1 + u) * (260 / of_nat h)"
  proof -
    have "v \<le> dval (div_double 260 h)" by (simp add: v_def s_def Math_min_def)
    also have "\<dots> \<le> (1 + u) * (of_nat 260 / of_nat h)"
      unfolding div_double_def u_def using round_double_bounds(2) [of 260 h] assms(2) by simp
    finally show ?thesis by simp
  qed
  have v0: "0 < v"
    using round_double_pos [of 515 w] round_double_pos [of 260 h] assms(1,2)
    by (simp add: v_def s_def Math_min_def div_double_def)
  have Wlo: "(1 - u) * (of_nat w * v) \<le> W" and Whi: "W \<le> (1 + u) * (of_nat w * v)"
    using mul_double_bounds [OF assms(1), of s] v0 by (simp_all add: W_def v_def u_def)
  have Hlo: "(1 - u) * (of_nat h * v) \<le> H" and Hhi: "H \<le> (1 + u) * (of_nat h * v)"
    using mul_double_bounds [OF assms(2), of s] v0 by (simp_all add: H_def v_def u_def)
  have H0: "0 < H"
  proof -
    have "0 < (1 - u) * (of_nat h * v)" using u1 h0 v0 by simp
    then show ?thesis using Hlo by linarith
  qed
  have W0: "0 < W"
  proof -
    have "0 < (1 - u) * (of_nat w * v)" using u1 w0 v0 by simp
    then show ?thesis using Wlo by linarith
  qed
  have Wbox: "W \<le> 515 * (1 + u) ^ 2"
  proof -
    have "of_nat w * v \<le> of_nat w * ((1 + u) * (515 / of_nat w))"
      by (rule mult_left_mono [OF v1]) (use w0 in simp)
    also have "\<dots> = (1 + u) * 515" using w0 by simp
    finally have "(1 + u) * (of_nat w * v) \<le> (1 + u) * ((1 + u) * 515)"
      using u0 by (simp add: mult_left_mono)
    with Whi have "W \<le> (1 + u) * ((1 + u) * 515)" by linarith
    then show ?thesis by (simp add: power2_eq_square algebra_simps)
  qed
  have Hbox: "H \<le> 260 * (1 + u) ^ 2"
  proof -
    have "of_nat h * v \<le> of_nat h * ((1 + u) * (260 / of_nat h))"
      by (rule mult_left_mono [OF v2]) (use h0 in simp)
    also have "\<dots> = (1 + u) * 260" using h0 by simp
    finally have "(1 + u) * (of_nat h * v) \<le> (1 + u) * ((1 + u) * 260)"
      using u0 by (simp add: mult_left_mono)
    with Hhi have "H \<le> (1 + u) * ((1 + u) * 260)" by linarith
    then show ?thesis by (simp add: power2_eq_square algebra_simps)
  qed
  have rlo: "(1 - u) / (1 + u) * (of_nat w / of_nat h) \<le> W / H"
  proof -
    have a: "(1 - u) * of_nat w * H \<le> (1 - u) * of_nat w * ((1 + u) * (of_nat h * v))"
      using Hhi u1 w0 by (simp add: mult_left_mono)
    have b: "(1 + u) * of_nat h * ((1 - u) * (of_nat w * v)) \<le> (1 + u) * of_nat h * W"
      using Wlo u0 h0 by (simp add: mult_left_mono)
    have "(1 - u) * of_nat w * ((1 + u) * (of_nat h * v)) = (1 + u) * of_nat h * ((1 - u) * (of_nat w * v))"
      by (simp add: algebra_simps)
    with a b have c: "(1 - u) * of_nat w * H \<le> (1 + u) * of_nat h * W" by linarith
    define A where "A = (1 - u) * of_nat w"
    define B where "B = (1 + u) * of_nat h"
    have B0: "0 < B" using u0 h0 by (simp add: B_def)
    have "A * H \<le> W * B" using c by (simp add: A_def B_def mult.commute)
    then have "A \<le> (W * B) / H" using H0 by (simp add: pos_le_divide_eq)
    then have "A \<le> (W / H) * B" by simp
    then have "A / B \<le> W / H" using B0 by (simp add: pos_divide_le_eq)
    moreover have "(1 - u) / (1 + u) * (of_nat w / of_nat h) = A / B"
      by (simp add: A_def B_def)
    ultimately show ?thesis by simp
  qed
  have rhi: "W / H \<le> (1 + u) / (1 - u) * (of_nat w / of_nat h)"
  proof -
    have a: "(1 - u) * of_nat h * W \<le> (1 - u) * of_nat h * ((1 + u) * (of_nat w * v))"
      using Whi u1 h0 by (simp add: mult_left_mono)
    have b: "(1 + u) * of_nat w * ((1 - u) * (of_nat h * v)) \<le> (1 + u) * of_nat w * H"
      using Hlo u0 w0 by (simp add: mult_left_mono)
    have "(1 - u) * of_nat h * ((1 + u) * (of_nat w * v)) = (1 + u) * of_nat w * ((1 - u) * (of_nat h * v))"
      by (simp add: algebra_simps)
    with a b have c: "(1 - u) * of_nat h * W \<le> (1 + u) * of_nat w * H" by linarith
    define A where "A = (1 + u) * of_nat w"
    define B where "B = (1 - u) * of_nat h"
    have B0: "0 < B" using u1 h0 by (simp add: B_def)
    have "W * B \<le> A * H" using c by (simp add: A_def B_def mult.commute)
    then have "W \<le> (A * H) / B" using B0 by (simp add: pos_le_divide_eq)
    then have "W \<le> (A / B) * H" by simp
    then have "W / H \<le> A / B" using H0 by (simp add: pos_divide_le_eq)
    moreover have "(1 + u) / (1 - u) * (of_nat w / of_nat h) = A / B"
      by (simp add: A_def B_def)
    ultimately show ?thesis by simp
  qed
  show ?thesis
    using si Wbox Hbox H0 rlo rhi
    by (simp add: W_def H_def s_def u_def)
qed

lemma binade_upper:
  assumes "0 < a" and "0 < b"
  shows "(of_nat a :: rat) / of_nat b < 2 powi (binade a b + 1)"
proof -
  define d where "d = int (ilog2 a) - int (ilog2 b)"
  have b0: "(of_nat b :: rat) > 0" using assms by simp
  show ?thesis
  proof (cases "of_nat b * 2 powi d \<le> (of_nat a :: rat)")
    case True
    then have e: "binade a b = d" by (simp add: binade_def d_def)
    have ha: "(of_nat a :: rat) < 2 ^ Suc (ilog2 a)"
      using ilog2_bounds [OF assms(1)] by (metis of_nat_less_iff of_nat_numeral of_nat_power)
    have lb: "(2 :: rat) ^ ilog2 b \<le> of_nat b"
      using ilog2_bounds [OF assms(2)] by (metis of_nat_le_iff of_nat_numeral of_nat_power)
    have "(of_nat a :: rat) / of_nat b \<le> of_nat a / 2 ^ ilog2 b"
      using lb by (simp add: frac_le)
    also have "\<dots> < 2 ^ Suc (ilog2 a) / 2 ^ ilog2 b"
      using ha by (simp add: divide_strict_right_mono)
    also have "\<dots> = 2 powi (d + 1)"
      by (simp add: d_def power_int_diff power_int_add)
    finally show ?thesis by (simp add: e)
  next
    case False
    then have e: "binade a b = d - 1" by (simp add: binade_def d_def)
    have "(of_nat a :: rat) / of_nat b < 2 powi d"
      using False b0 by (simp add: field_simps)
    then show ?thesis by (simp add: e)
  qed
qed

text \<open>
  Claim C9, witness: a photo of 4000 by 3000 pixels, rendered 346.6666666666667 by
  260.
\<close>

theorem scaled_image_up_to_rounding_witness:
  "(0 :: nat) < 4000 \<and> (0 :: nat) < 3000 \<and> (4000 :: nat) < 2 ^ 32 \<and> (3000 :: nat) < 2 ^ 32
   \<and> scaled_image 4000 3000 = (Double 6098624495397547 (-44), Double 4573968371548160 (-44))
   \<and> dval (fst (scaled_image 4000 3000)) \<le> 515 * (1 + 1 / 2 ^ 53) ^ 2
   \<and> dval (snd (scaled_image 4000 3000)) \<le> 260 * (1 + 1 / 2 ^ 53) ^ 2
   \<and> dval (fst (scaled_image 4000 3000)) / dval (snd (scaled_image 4000 3000))
        \<le> (1 + 1 / 2 ^ 53) / (1 - 1 / 2 ^ 53) * (of_nat 4000 / of_nat 3000)"
proof -
  have 1: "(0 :: nat) < 4000" and 2: "(0 :: nat) < 3000"
    and 3: "(4000 :: nat) < 2 ^ 32" and 4: "(3000 :: nat) < 2 ^ 32"
    by simp_all
  have 5: "scaled_image 4000 3000 = (Double 6098624495397547 (-44), Double 4573968371548160 (-44))"
    by (simp add: dbl_defs)
  show ?thesis
    using scaled_image_up_to_rounding [OF 1 2 3 4] 1 2 3 4 5 by blast
qed

text \<open>
  Claim C9, counterexample: an image of 1655 by 16550 pixels is rendered with the height
  260.00000000000006, above the box, and with a ratio that is not 1655 to 16550.
\<close>

theorem scaled_image_counterexample:
  "scaled_image 1655 16550 = (Double 7318349394477057 (-48), Double 4573968371548161 (-44))
   \<and> 260 < dval (Double 4573968371548161 (-44))
   \<and> dval (Double 7318349394477057 (-48)) / dval (Double 4573968371548161 (-44)) \<noteq> 1655 / 16550"
  by (simp add: dbl_defs)

end
